theory Spec2Isabelle
  imports Main "HOL-Library.Word"
begin

section \<open>Data model\<close>

text \<open>
  The relay in \<^verbatim>\<open>main.go\<close> is a thin coordinator over three external packages: the
  WebRTC transport session (peer connection, tracks), the WebSocket control channel, and
  the RTP sample builder. The model keeps the Go code's own control flow and data, and
  treats every external package as a deterministic black box:
  \<^item> each call the Go code makes on an external object is appended, in program order, to
    a trace of \<open>event\<close>s;
  \<^item> what such a call returns is decided by a \<open>library\<close> value, from the call and the
    trace of all calls made before it.
  A Go \<^verbatim>\<open>error\<close> is \<open>string option\<close>: \<open>None\<close> is \<^verbatim>\<open>nil\<close>, \<open>Some s\<close> an error whose
  message is \<open>s\<close>. A pointer that may be \<^verbatim>\<open>nil\<close> is an \<open>option\<close>.
\<close>

type_synonym error = "string option"

record SessionDescription =
  sdType :: string
  sdSDP :: string

record ICECandidateInit =
  Candidate :: string
  SDPMid :: "string option"
  SDPMLineIndex :: "16 word option"
  UsernameFragment :: "string option"

text \<open>\<^verbatim>\<open>type SignalingMessage struct\<close>\<close>

record SignalingMessage =
  Type :: string
  SDP :: "SessionDescription option"
  ICE :: "ICECandidateInit option"
  Error :: string

text \<open>The two codec names the Go code passes to the track constructor.\<close>

datatype MimeType = MimeTypeVP8 | MimeTypeOpus

text \<open>\<^verbatim>\<open>webrtc.NewTrackLocalStaticSample(capability, id, streamID)\<close>\<close>

datatype Track = TrackLocalStaticSample MimeType string string

text \<open>The depacketizers handed to the sample builder.\<close>

datatype Depacketizer = VP8Packet | OpusPacket

text \<open>\<^verbatim>\<open>rtp.Packet\<close>: the header fields the relay and its reassemblers look at, and the payload.\<close>

record Packet =
  PayloadType :: "8 word"
  SequenceNumber :: "16 word"
  Timestamp :: "32 word"
  Marker :: bool
  Payload :: "8 word list"

text \<open>\<^verbatim>\<open>media.Sample\<close>: what a sample builder emits and a track accepts.\<close>

datatype Sample = Sample "8 word list" "32 word"

text \<open>Every call on an external object, with its arguments.\<close>

datatype event =
    RegisterDefaultCodecs
  | NewPeerConnection "string list"
  | NewTrackLocalStaticSample MimeType string string
  | AddTrack Track
  | OnICECandidate
  | OnICEConnectionStateChange
  | SetRemoteDescription SessionDescription
  | CreateAnswer
  | SetLocalDescription SessionDescription
  | GatheringComplete
  | LocalDescription
  | AddICECandidate ICECandidateInit
  | PeerConnectionClose
  | WriteJSON SignalingMessage
  | ListenUDP
  | UDPClose
  | NewSampleBuilder "16 word" Depacketizer "32 word"
  | WriteSample Track Sample
  | Log string

text \<open>
  The external packages. \<open>lib_error\<close> is the error a call returns when made after the
  given trace; the other fields give the values returned by the calls that return one.
  \<open>lib_gathered\<close> says whether the channel returned by
  \<^verbatim>\<open>webrtc.GatheringCompletePromise\<close> is ever closed, so that the receive on it returns.
\<close>

record library =
  lib_error :: "event list \<Rightarrow> event \<Rightarrow> error"
  lib_CreateAnswer :: "event list \<Rightarrow> SessionDescription"
  lib_LocalDescription :: "event list \<Rightarrow> SessionDescription option"
  lib_gathered :: "event list \<Rightarrow> bool"

text \<open>A call that returns only an error: the error, and the trace with the call appended.\<close>

definition call :: "library \<Rightarrow> event \<Rightarrow> event list \<Rightarrow> error \<times> event list" where
  "call lib ev tr = (lib_error lib tr ev, tr @ [ev])"

text \<open>
  How a Go function can end: it returns its \<^verbatim>\<open>error\<close> result, it panics, or it never
  returns because it waits on something that does not happen.
\<close>

datatype panic = NilPointerDereference | CloseOfClosedChannel | CloseOfNilChannel

datatype wait = AwaitGathering | AwaitRead

datatype outcome = Returned error | Panicked panic | Blocked wait

text \<open>A Go channel of \<^verbatim>\<open>struct{}\<close> on which nothing is ever sent: only its closing matters.\<close>

datatype chan = NilChan | OpenChan | ClosedChan

datatype UDPConn = UDPConn

text \<open>
  \<^verbatim>\<open>type WebRTCManager struct\<close>. The peer connection and the control channel are the
  session's single handles on which the events of the trace act; the mutex only orders
  goroutines and has no sequential effect. The other fields are kept.
\<close>

record WebRTCManager =
  videoTrack :: Track
  audioTrack :: Track
  udpListener :: "UDPConn option"
  stopChan :: chan

section \<open>Signaling\<close>

text \<open>\<^verbatim>\<open>func (m *WebRTCManager) handleOffer(offer *webrtc.SessionDescription) error\<close>\<close>

definition handleOffer ::
  "library \<Rightarrow> WebRTCManager \<Rightarrow> SessionDescription option \<Rightarrow> event list \<Rightarrow> outcome \<times> event list"
where
  "handleOffer lib m offer tr =
    (case offer of
       None \<Rightarrow> (Panicked NilPointerDereference, tr)
     | Some off \<Rightarrow>
        (case call lib (SetRemoteDescription off) tr of
           (Some err, tr1) \<Rightarrow> (Returned (Some (''failed to set remote description: '' @ err)), tr1)
         | (None, tr1) \<Rightarrow>
            (let answer = lib_CreateAnswer lib tr1 in
             case call lib CreateAnswer tr1 of
               (Some err, tr2) \<Rightarrow> (Returned (Some (''failed to create answer: '' @ err)), tr2)
             | (None, tr2) \<Rightarrow>
                (case call lib (SetLocalDescription answer) tr2 of
                   (Some err, tr3) \<Rightarrow>
                     (Returned (Some (''failed to set local description: '' @ err)), tr3)
                 | (None, tr3) \<Rightarrow>
                    (if \<not> lib_gathered lib tr3 then (Blocked AwaitGathering, tr3)
                     else
                      (let tr4 = tr3 @ [GatheringComplete];
                           msg = \<lparr>Type = ''answer'', SDP = lib_LocalDescription lib tr4,
                                  ICE = None, Error = ''''\<rparr>
                       in case call lib (WriteJSON msg) (tr4 @ [LocalDescription]) of
                            (Some err, tr5) \<Rightarrow>
                              (Returned (Some (''failed to send answer: '' @ err)), tr5)
                          | (None, tr5) \<Rightarrow> (Returned None, tr5)))))))"

text \<open>\<^verbatim>\<open>func (m *WebRTCManager) handleICECandidate(candidate *webrtc.ICECandidateInit) error\<close>\<close>

definition handleICECandidate ::
  "library \<Rightarrow> WebRTCManager \<Rightarrow> ICECandidateInit option \<Rightarrow> event list \<Rightarrow> outcome \<times> event list"
where
  "handleICECandidate lib m candidate tr =
    (case candidate of
       None \<Rightarrow> (Returned None, tr)
     | Some c \<Rightarrow> (case call lib (AddICECandidate c) tr of (err, tr1) \<Rightarrow> (Returned err, tr1)))"

text \<open>\<^verbatim>\<open>func (m *WebRTCManager) handleSignalingMessage(msg SignalingMessage) error\<close>\<close>

definition handleSignalingMessage ::
  "library \<Rightarrow> WebRTCManager \<Rightarrow> SignalingMessage \<Rightarrow> event list \<Rightarrow> outcome \<times> event list"
where
  "handleSignalingMessage lib m msg tr =
    (if Type msg = ''offer'' then handleOffer lib m (SDP msg) tr
     else if Type msg = ''ice'' then handleICECandidate lib m (ICE msg) tr
     else (Returned (Some (''unknown message type: '' @ Type msg)), tr))"

text \<open>
  The read loop of \<^verbatim>\<open>handleWebRTCConnection\<close>. The list is what successive
  \<^verbatim>\<open>wsConn.ReadJSON\<close> calls deliver: a message, or a read error, which ends the loop.
  When the list is used up the loop is waiting in \<^verbatim>\<open>ReadJSON\<close>. A panic in a handler
  leaves the loop.
\<close>

fun handleWebRTCConnection_loop ::
  "library \<Rightarrow> WebRTCManager \<Rightarrow> (string + SignalingMessage) list \<Rightarrow> event list
    \<Rightarrow> outcome \<times> event list"
where
  "handleWebRTCConnection_loop lib m [] tr = (Blocked AwaitRead, tr)"
| "handleWebRTCConnection_loop lib m (Inl err # rest) tr =
     (Returned None, tr @ [Log (''WebSocket read error: '' @ err)])"
| "handleWebRTCConnection_loop lib m (Inr msg # rest) tr =
     (case handleSignalingMessage lib m msg tr of
        (Returned (Some err), tr1) \<Rightarrow>
          handleWebRTCConnection_loop lib m rest
            (tr1 @ [Log (''Failed to handle signaling message: '' @ err)])
      | (Returned None, tr1) \<Rightarrow> handleWebRTCConnection_loop lib m rest tr1
      | (Panicked p, tr1) \<Rightarrow> (Panicked p, tr1)
      | (Blocked w, tr1) \<Rightarrow> (Blocked w, tr1))"

text \<open>The messages written to the control channel, in order.\<close>

fun outbound :: "event list \<Rightarrow> SignalingMessage list" where
  "outbound [] = []"
| "outbound (WriteJSON msg # tr) = msg # outbound tr"
| "outbound (_ # tr) = outbound tr"

section \<open>Session construction and teardown\<close>

text \<open>
  \<^verbatim>\<open>func newWebRTCManager(wsConn *websocket.Conn) (*WebRTCManager, error)\<close>. The Go code
  allocates the manager once the peer connection exists, with a fresh open channel and no
  socket, and stores each track in it as the track is created; a manager is returned only
  when both are set, which is where the model builds the record. The errors returned by
  the \<^verbatim>\<open>peerConnection.Close()\<close> calls on the failure paths are ignored, as in the code.
\<close>

definition newWebRTCManager ::
  "library \<Rightarrow> event list \<Rightarrow> (string + WebRTCManager) \<times> event list"
where
  "newWebRTCManager lib tr =
    (case call lib RegisterDefaultCodecs tr of
       (Some err, tr1) \<Rightarrow> (Inl (''failed to register default codecs: '' @ err), tr1)
     | (None, tr1) \<Rightarrow>
    (case call lib (NewPeerConnection [''stun:stun.l.google.com:19302'']) tr1 of
       (Some err, tr2) \<Rightarrow> (Inl (''failed to create peer connection: '' @ err), tr2)
     | (None, tr2) \<Rightarrow>
    (case call lib (NewTrackLocalStaticSample MimeTypeVP8 ''video'' ''pion'') tr2 of
       (Some err, tr3) \<Rightarrow>
         (Inl (''failed to create video track: '' @ err), snd (call lib PeerConnectionClose tr3))
     | (None, tr3) \<Rightarrow>
    (case call lib (NewTrackLocalStaticSample MimeTypeOpus ''audio'' ''pion'') tr3 of
       (Some err, tr4) \<Rightarrow>
         (Inl (''failed to create audio track: '' @ err), snd (call lib PeerConnectionClose tr4))
     | (None, tr4) \<Rightarrow>
    (let video = TrackLocalStaticSample MimeTypeVP8 ''video'' ''pion'';
         audio = TrackLocalStaticSample MimeTypeOpus ''audio'' ''pion''
     in
     case call lib (AddTrack video) tr4 of
       (Some err, tr5) \<Rightarrow>
         (Inl (''failed to add video track: '' @ err), snd (call lib PeerConnectionClose tr5))
     | (None, tr5) \<Rightarrow>
    (case call lib (AddTrack audio) tr5 of
       (Some err, tr6) \<Rightarrow>
         (Inl (''failed to add audio track: '' @ err), snd (call lib PeerConnectionClose tr6))
     | (None, tr6) \<Rightarrow>
         (Inr \<lparr>videoTrack = video, audioTrack = audio, udpListener = None, stopChan = OpenChan\<rparr>,
          tr6 @ [OnICECandidate, OnICEConnectionStateChange])))))))"

text \<open>
  \<^verbatim>\<open>func (m *WebRTCManager) close()\<close>. The Go builtin \<^verbatim>\<open>close\<close> panics on a channel that is
  \<^verbatim>\<open>nil\<close> or already closed.
\<close>

definition close ::
  "library \<Rightarrow> WebRTCManager \<Rightarrow> event list \<Rightarrow> (panic + WebRTCManager) \<times> event list"
where
  "close lib m tr =
    (case stopChan m of
       NilChan \<Rightarrow> (Inl CloseOfNilChannel, tr)
     | ClosedChan \<Rightarrow> (Inl CloseOfClosedChannel, tr)
     | OpenChan \<Rightarrow>
        (let m1 = m\<lparr>stopChan := ClosedChan\<rparr>;
             tr1 = (case udpListener m1 of None \<Rightarrow> tr | Some c \<Rightarrow> snd (call lib UDPClose tr))
         in case call lib PeerConnectionClose tr1 of
              (Some err, tr2) \<Rightarrow> (Inr m1, tr2 @ [Log (''Error closing peer connection: '' @ err)])
            | (None, tr2) \<Rightarrow> (Inr m1, tr2)))"

text \<open>The tracks registered on the peer connection, and the reassemblers constructed.\<close>

fun registeredTracks :: "event list \<Rightarrow> Track list" where
  "registeredTracks [] = []"
| "registeredTracks (AddTrack t # tr) = t # registeredTracks tr"
| "registeredTracks (_ # tr) = registeredTracks tr"

fun isNegotiation :: "event \<Rightarrow> bool" where
  "isNegotiation (SetRemoteDescription _) = True"
| "isNegotiation CreateAnswer = True"
| "isNegotiation (SetLocalDescription _) = True"
| "isNegotiation _ = False"


section \<open>Media ingest\<close>

text \<open>
  The packages the ingest loop uses: \<^verbatim>\<open>samplebuilder.New\<close>, \<^verbatim>\<open>Push\<close> and \<^verbatim>\<open>Pop\<close> over
  a reassembler state \<open>'sb\<close> (\<open>Pop\<close> returns \<^verbatim>\<open>nil\<close> as \<open>None\<close>), and
  \<^verbatim>\<open>rtp.Packet.Unmarshal\<close>.
\<close>

record 'sb media =
  sb_New :: "16 word \<Rightarrow> Depacketizer \<Rightarrow> 32 word \<Rightarrow> 'sb"
  sb_Push :: "'sb \<Rightarrow> Packet \<Rightarrow> 'sb"
  sb_Pop :: "'sb \<Rightarrow> Sample option \<times> 'sb"
  rtp_Unmarshal :: "8 word list \<Rightarrow> string + Packet"

text \<open>A failed socket read: what \<^verbatim>\<open>os.IsTimeout\<close> says of the error, and its message.\<close>

datatype NetError = NetError bool string

text \<open>
  One turn of the ingest loop's \<^verbatim>\<open>select\<close>: the shutdown channel is closed (\<open>Stop\<close>), or
  the default branch runs and \<^verbatim>\<open>ReadFrom\<close> returns an error or a datagram.
\<close>

datatype tick = Stop | Read "NetError + 8 word list"

datatype task = Running | Exited

record 'sb buffers =
  videoBuffer :: 'sb
  audioBuffer :: 'sb

text \<open>
  The inner \<^verbatim>\<open>for { sample := buffer.Pop(); if sample == nil { break }; ... }\<close>. It ends
  only when \<open>Pop\<close> returns \<^verbatim>\<open>nil\<close>, so it is a partial function: \<open>None\<close> is a loop
  that never ends.
\<close>

partial_function (option) popLoop ::
  "library \<Rightarrow> 'sb media \<Rightarrow> Track \<Rightarrow> string \<Rightarrow> 'sb \<Rightarrow> event list \<Rightarrow> ('sb \<times> event list) option"
where
  "popLoop lib med track kind sb tr =
    (case sb_Pop med sb of
       (None, sb1) \<Rightarrow> Some (sb1, tr)
     | (Some sample, sb1) \<Rightarrow>
        (case call lib (WriteSample track sample) tr of
           (Some err, tr1) \<Rightarrow>
             popLoop lib med track kind sb1
               (tr1 @ [Log (''Error writing '' @ kind @ '' sample: '' @ err)])
         | (None, tr1) \<Rightarrow> popLoop lib med track kind sb1 tr1))"

text \<open>\<^verbatim>\<open>switch packet.PayloadType\<close>\<close>

definition handleMedia_switch ::
  "library \<Rightarrow> 'sb media \<Rightarrow> WebRTCManager \<Rightarrow> 'sb buffers \<Rightarrow> Packet \<Rightarrow> event list
    \<Rightarrow> ('sb buffers \<times> event list) option"
where
  "handleMedia_switch lib med m bufs packet tr =
    (if PayloadType packet = 96 then
       (case popLoop lib med (videoTrack m) ''video''
               (sb_Push med (videoBuffer bufs) packet) tr of
          None \<Rightarrow> None
        | Some (sb, tr1) \<Rightarrow> Some (bufs\<lparr>videoBuffer := sb\<rparr>, tr1))
     else if PayloadType packet = 111 then
       (case popLoop lib med (audioTrack m) ''audio''
               (sb_Push med (audioBuffer bufs) packet) tr of
          None \<Rightarrow> None
        | Some (sb, tr1) \<Rightarrow> Some (bufs\<lparr>audioBuffer := sb\<rparr>, tr1))
     else Some (bufs, tr))"

text \<open>
  The goroutine's \<^verbatim>\<open>for { select { ... } }\<close>, over the turns it takes. The read buffer
  holds 1500 bytes, so a longer datagram is cut there. When the turns are used up the
  loop is still running.
\<close>

fun handleMedia_loop ::
  "library \<Rightarrow> 'sb media \<Rightarrow> WebRTCManager \<Rightarrow> tick list \<Rightarrow> 'sb buffers \<Rightarrow> event list
    \<Rightarrow> (task \<times> 'sb buffers \<times> event list) option"
where
  "handleMedia_loop lib med m [] bufs tr = Some (Running, bufs, tr)"
| "handleMedia_loop lib med m (Stop # ticks) bufs tr = Some (Exited, bufs, tr)"
| "handleMedia_loop lib med m (Read (Inl (NetError timeout text)) # ticks) bufs tr =
     handleMedia_loop lib med m ticks bufs
       (if \<not> timeout then tr @ [Log (''Error during read: '' @ text)] else tr)"
| "handleMedia_loop lib med m (Read (Inr datagram) # ticks) bufs tr =
     (case rtp_Unmarshal med (take 1500 datagram) of
        Inl err \<Rightarrow>
          handleMedia_loop lib med m ticks bufs
            (tr @ [Log (''Error unmarshaling RTP packet: '' @ err)])
      | Inr packet \<Rightarrow>
         (case handleMedia_switch lib med m bufs packet tr of
            None \<Rightarrow> None
          | Some (bufs1, tr1) \<Rightarrow> handleMedia_loop lib med m ticks bufs1 tr1))"


text \<open>What the ingest loop may do to the outside for one media kind: write to its track, log.\<close>

fun touchesOnly :: "Track \<Rightarrow> event \<Rightarrow> bool" where
  "touchesOnly t (WriteSample t' s) = (t' = t)"
| "touchesOnly t (Log text) = True"
| "touchesOnly t _ = False"

text \<open>
  A turn that fails before the packet is dispatched: a read error (timeout or not) or
  a datagram that does not parse; and what the loop logs for it.
\<close>

fun failedTurn :: "'sb media \<Rightarrow> tick \<Rightarrow> bool" where
  "failedTurn med Stop = False"
| "failedTurn med (Read (Inl err)) = True"
| "failedTurn med (Read (Inr datagram)) =
     (case rtp_Unmarshal med (take 1500 datagram) of Inl err \<Rightarrow> True | Inr packet \<Rightarrow> False)"

fun turnLog :: "'sb media \<Rightarrow> tick \<Rightarrow> event list" where
  "turnLog med Stop = []"
| "turnLog med (Read (Inl (NetError timeout text))) =
     (if timeout then [] else [Log (''Error during read: '' @ text)])"
| "turnLog med (Read (Inr datagram)) =
     (case rtp_Unmarshal med (take 1500 datagram) of
        Inl err \<Rightarrow> [Log (''Error unmarshaling RTP packet: '' @ err)]
      | Inr packet \<Rightarrow> [])"

text \<open>\<open>drains med n sb\<close>: within \<open>n\<close> calls, \<open>Pop\<close> on \<open>sb\<close> returns \<^verbatim>\<open>nil\<close>.\<close>

fun drains :: "'sb media \<Rightarrow> nat \<Rightarrow> 'sb \<Rightarrow> bool" where
  "drains med 0 sb = False"
| "drains med (Suc n) sb =
     (case sb_Pop med sb of (None, sb1) \<Rightarrow> True | (Some sample, sb1) \<Rightarrow> drains med n sb1)"

text \<open>
  \<open>popSamples med n sb\<close>: the samples \<open>Pop\<close> returns on \<open>sb\<close> up to its first
  \<^verbatim>\<open>nil\<close>, and the reassembler state then, when that takes at most \<open>n\<close> calls.
\<close>

fun popSamples :: "'sb media \<Rightarrow> nat \<Rightarrow> 'sb \<Rightarrow> (Sample list \<times> 'sb) option" where
  "popSamples med 0 sb = None"
| "popSamples med (Suc n) sb =
     (case sb_Pop med sb of
        (None, sb1) \<Rightarrow> Some ([], sb1)
      | (Some sample, sb1) \<Rightarrow>
         (case popSamples med n sb1 of
            None \<Rightarrow> None
          | Some (samples, sb2) \<Rightarrow> Some (sample # samples, sb2)))"

text \<open>The samples written to a track, in order.\<close>

fun written :: "Track \<Rightarrow> event list \<Rightarrow> Sample list" where
  "written t [] = []"
| "written t (WriteSample t' s # tr) = (if t' = t then s # written t tr else written t tr)"
| "written t (_ # tr) = written t tr"

section \<open>Properties of an offer\<close>

text \<open>
  The transport session accepts an offer made after trace \<open>tr\<close>: setting it as the remote
  description, creating the answer and setting the answer as the local description all
  succeed. \<open>negotiated\<close> is the trace after these three calls, and \<open>answerMessage\<close> the
  message built from the local description once gathering is complete.
\<close>

definition accepted :: "library \<Rightarrow> event list \<Rightarrow> SessionDescription \<Rightarrow> bool" where
  "accepted lib tr off =
    (lib_error lib tr (SetRemoteDescription off) = None
     \<and> lib_error lib (tr @ [SetRemoteDescription off]) CreateAnswer = None
     \<and> lib_error lib (tr @ [SetRemoteDescription off, CreateAnswer])
          (SetLocalDescription (lib_CreateAnswer lib (tr @ [SetRemoteDescription off]))) = None)"

definition negotiated :: "library \<Rightarrow> event list \<Rightarrow> SessionDescription \<Rightarrow> event list" where
  "negotiated lib tr off =
    tr @ [SetRemoteDescription off, CreateAnswer,
          SetLocalDescription (lib_CreateAnswer lib (tr @ [SetRemoteDescription off]))]"

definition answerMessage :: "library \<Rightarrow> event list \<Rightarrow> SignalingMessage" where
  "answerMessage lib tr =
    \<lparr>Type = ''answer'', SDP = lib_LocalDescription lib (tr @ [GatheringComplete]),
     ICE = None, Error = ''''\<rparr>"

section \<open>Concrete instances\<close>

text \<open>
  Small instances of the external packages, to run the model on. In \<open>plain_library\<close> no
  call fails, the answer lists one media line per registered track, the local description
  is the one set last, and gathering completes.
\<close>

fun mediaLine :: "Track \<Rightarrow> string" where
  "mediaLine (TrackLocalStaticSample MimeTypeVP8 i s) = ''m=video;''"
| "mediaLine (TrackLocalStaticSample MimeTypeOpus i s) = ''m=audio;''"

definition answerFor :: "event list \<Rightarrow> SessionDescription" where
  "answerFor tr = \<lparr>sdType = ''answer'', sdSDP = concat (map mediaLine (registeredTracks tr))\<rparr>"

fun localOf :: "event list \<Rightarrow> SessionDescription option" where
  "localOf [] = None"
| "localOf (SetLocalDescription d # tr) = (case localOf tr of None \<Rightarrow> Some d | Some d' \<Rightarrow> Some d')"
| "localOf (_ # tr) = localOf tr"

definition plain_library :: library where
  "plain_library =
    \<lparr>lib_error = (\<lambda>tr ev. None), lib_CreateAnswer = answerFor,
     lib_LocalDescription = localOf, lib_gathered = (\<lambda>tr. True)\<rparr>"


text \<open>
  A reassembler that is a queue of packets and emits each as one sample, and a two-byte
  header (payload type, sequence number) in place of the RTP wire format.
\<close>

fun queuePop :: "Packet list \<Rightarrow> Sample option \<times> Packet list" where
  "queuePop [] = (None, [])"
| "queuePop (p # ps) = (Some (Sample (Payload p) (Timestamp p)), ps)"

fun shortUnmarshal :: "8 word list \<Rightarrow> string + Packet" where
  "shortUnmarshal (pt # sq # rest) =
     Inr \<lparr>PayloadType = pt, SequenceNumber = ucast sq, Timestamp = 0, Marker = False,
          Payload = rest\<rparr>"
| "shortUnmarshal _ = Inl ''header size insufficient''"

definition queue_media :: "Packet list media" where
  "queue_media =
    \<lparr>sb_New = (\<lambda>maxLate d rate. []), sb_Push = (\<lambda>q p. q @ [p]), sb_Pop = queuePop,
     rtp_Unmarshal = shortUnmarshal\<rparr>"

text \<open>The session \<open>newWebRTCManager\<close> builds, its trace, and sample inputs.\<close>

definition new_session :: WebRTCManager where
  "new_session =
    \<lparr>videoTrack = TrackLocalStaticSample MimeTypeVP8 ''video'' ''pion'',
     audioTrack = TrackLocalStaticSample MimeTypeOpus ''audio'' ''pion'',
     udpListener = None, stopChan = OpenChan\<rparr>"

definition new_trace :: "event list" where
  "new_trace =
    [RegisterDefaultCodecs, NewPeerConnection [''stun:stun.l.google.com:19302''],
     NewTrackLocalStaticSample MimeTypeVP8 ''video'' ''pion'',
     NewTrackLocalStaticSample MimeTypeOpus ''audio'' ''pion'',
     AddTrack (TrackLocalStaticSample MimeTypeVP8 ''video'' ''pion''),
     AddTrack (TrackLocalStaticSample MimeTypeOpus ''audio'' ''pion''),
     OnICECandidate, OnICEConnectionStateChange]"

definition sample_offer :: SessionDescription where
  "sample_offer = \<lparr>sdType = ''offer'', sdSDP = ''v=0''\<rparr>"

definition bogus_message :: SignalingMessage where
  "bogus_message = \<lparr>Type = ''bogus'', SDP = None, ICE = None, Error = ''''\<rparr>"

definition end_of_candidates :: SignalingMessage where
  "end_of_candidates = \<lparr>Type = ''ice'', SDP = None, ICE = None, Error = ''''\<rparr>"

definition sample_candidate :: ICECandidateInit where
  "sample_candidate =
    \<lparr>Candidate = ''candidate:1 1 udp 1 192.0.2.1 5000 typ host'', SDPMid = Some ''0'',
     SDPMLineIndex = Some 0, UsernameFragment = None\<rparr>"

definition offer_without_sdp :: SignalingMessage where
  "offer_without_sdp = \<lparr>Type = ''offer'', SDP = None, ICE = None, Error = ''''\<rparr>"

definition video_packet :: Packet where
  "video_packet =
    \<lparr>PayloadType = 96, SequenceNumber = 1, Timestamp = 3000, Marker = True, Payload = [1, 2]\<rparr>"

definition other_packet :: Packet where
  "other_packet =
    \<lparr>PayloadType = 0, SequenceNumber = 1, Timestamp = 160, Marker = False, Payload = [7]\<rparr>"

definition empty_buffers :: "Packet list buffers" where
  "empty_buffers = \<lparr>videoBuffer = [], audioBuffer = []\<rparr>"

text \<open>
  The trace once the peer connection exists, and the two tracks the code constructs.
\<close>

definition peerConnectionCreated :: "event list \<Rightarrow> event list" where
  "peerConnectionCreated tr =
    tr @ [RegisterDefaultCodecs, NewPeerConnection [''stun:stun.l.google.com:19302'']]"

definition video_track :: Track where
  "video_track = TrackLocalStaticSample MimeTypeVP8 ''video'' ''pion''"

definition audio_track :: Track where
  "audio_track = TrackLocalStaticSample MimeTypeOpus ''audio'' ''pion''"

text \<open>A library in which exactly the given call fails, with the given message.\<close>

definition failing_library :: "event \<Rightarrow> string \<Rightarrow> library" where
  "failing_library ev text =
    plain_library\<lparr>lib_error := (\<lambda>tr e. if e = ev then Some text else None)\<rparr>"

text \<open>A reading of descriptions for \<open>plain_library\<close>: one media line per track, in order.\<close>

definition listsTracks :: "SessionDescription \<Rightarrow> Track list \<Rightarrow> bool" where
  "listsTracks d ts = (sdSDP d = concat (map mediaLine ts))"

definition offer_message :: SignalingMessage where
  "offer_message = \<lparr>Type = ''offer'', SDP = Some sample_offer, ICE = None, Error = ''''\<rparr>"

text \<open>What \<open>shortUnmarshal\<close> makes of the three bytes \<open>pt\<close>, 1, 5.\<close>

definition parsed_packet :: "8 word \<Rightarrow> Packet" where
  "parsed_packet pt =
    \<lparr>PayloadType = pt, SequenceNumber = 1, Timestamp = 0, Marker = False, Payload = [5]\<rparr>"

section \<open>Auxiliary facts\<close>

lemma outbound_append: "outbound (xs @ ys) = outbound xs @ outbound ys"
  by (induction xs rule: outbound.induct) simp_all



lemma newWebRTCManager_Inr:
  assumes "newWebRTCManager lib tr = (Inr m, tr')"
  shows "tr' = tr @ new_trace \<and> m = new_session"
  using assms
  by (simp add: newWebRTCManager_def call_def Let_def new_trace_def new_session_def
           split: option.splits)

lemma handleOffer_accepted:
  assumes "accepted lib tr off"
  shows "handleOffer lib m (Some off) tr =
    (if lib_gathered lib (negotiated lib tr off)
     then (Returned (map_option ((@) ''failed to send answer: '')
                      (lib_error lib (negotiated lib tr off @ [GatheringComplete, LocalDescription])
                         (WriteJSON (answerMessage lib (negotiated lib tr off))))),
           negotiated lib tr off @
             [GatheringComplete, LocalDescription,
              WriteJSON (answerMessage lib (negotiated lib tr off))])
     else (Blocked AwaitGathering, negotiated lib tr off))"
  using assms
  by (simp add: handleOffer_def accepted_def negotiated_def answerMessage_def call_def Let_def
           split: option.splits)

lemma outbound_negotiated: "outbound (negotiated lib tr off) = outbound tr"
  by (simp add: negotiated_def outbound_append)

lemma registeredTracks_append:
  "registeredTracks (xs @ ys) = registeredTracks xs @ registeredTracks ys"
  by (induction xs rule: registeredTracks.induct) simp_all

text \<open>
  The signaling handlers only add to the trace, never register a track, and never end
  waiting for a read.
\<close>

lemma handleSignalingMessage_extends:
  "\<exists>evs. snd (handleSignalingMessage lib m msg tr) = tr @ evs \<and> registeredTracks evs = []"
  by (simp add: handleSignalingMessage_def handleOffer_def handleICECandidate_def call_def
        Let_def split: option.splits)

lemma handleSignalingMessage_not_AwaitRead:
  "fst (handleSignalingMessage lib m msg tr) \<noteq> Blocked AwaitRead"
  by (simp add: handleSignalingMessage_def handleOffer_def handleICECandidate_def call_def
        Let_def split: option.splits)

lemma handleWebRTCConnection_loop_extends:
  "\<exists>evs. snd (handleWebRTCConnection_loop lib m reads tr) = tr @ evs
         \<and> registeredTracks evs = []"
proof (induction reads arbitrary: tr)
  case Nil
  show ?case by simp
next
  case (Cons r reads)
  show ?case
  proof (cases r)
    case (Inl err)
    then show ?thesis by simp
  next
    case (Inr msg)
    obtain res tr1 where h: "handleSignalingMessage lib m msg tr = (res, tr1)"
      by (cases "handleSignalingMessage lib m msg tr")
    from handleSignalingMessage_extends[of lib m msg tr] h obtain evs1 where
      tr1: "tr1 = tr @ evs1" and none1: "registeredTracks evs1 = []"
      by auto
    show ?thesis
    proof (cases res)
      case (Returned e)
      show ?thesis
      proof (cases e)
        case None
        from Cons.IH[of tr1] obtain evs2 where
          "snd (handleWebRTCConnection_loop lib m reads tr1) = tr1 @ evs2"
          "registeredTracks evs2 = []"
          by blast
        with Inr h Returned None tr1 none1
        have "snd (handleWebRTCConnection_loop lib m (r # reads) tr) = tr @ (evs1 @ evs2)
            \<and> registeredTracks (evs1 @ evs2) = []"
          by (simp add: registeredTracks_append)
        then show ?thesis by blast
      next
        case (Some err)
        let ?line = "Log (''Failed to handle signaling message: '' @ err)"
        from Cons.IH[of "tr1 @ [?line]"] obtain evs2 where
          "snd (handleWebRTCConnection_loop lib m reads (tr1 @ [?line])) = (tr1 @ [?line]) @ evs2"
          "registeredTracks evs2 = []"
          by blast
        with Inr h Returned Some tr1 none1
        have "snd (handleWebRTCConnection_loop lib m (r # reads) tr) =
                tr @ (evs1 @ ?line # evs2)
            \<and> registeredTracks (evs1 @ ?line # evs2) = []"
          by (simp add: registeredTracks_append)
        then show ?thesis by blast
      qed
    next
      case (Panicked p)
      with Inr h tr1 none1 show ?thesis by auto
    next
      case (Blocked w)
      with Inr h tr1 none1 show ?thesis by auto
    qed
  qed
qed

text \<open>A loop that has handled its messages and waits for the next goes on from there.\<close>

lemma handleWebRTCConnection_loop_append:
  "handleWebRTCConnection_loop lib m reads tr0 = (Blocked AwaitRead, tr) \<Longrightarrow>
   handleWebRTCConnection_loop lib m (reads @ later) tr0 =
   handleWebRTCConnection_loop lib m later tr"
proof (induction reads arbitrary: tr0)
  case Nil
  then show ?case by simp
next
  case (Cons r reads)
  show ?case
  proof (cases r)
    case (Inl err)
    with Cons.prems show ?thesis by simp
  next
    case (Inr msg)
    obtain res tr1 where h: "handleSignalingMessage lib m msg tr0 = (res, tr1)"
      by (cases "handleSignalingMessage lib m msg tr0")
    from handleSignalingMessage_not_AwaitRead[of lib m msg tr0] h
    have res: "res \<noteq> Blocked AwaitRead" by simp
    show ?thesis
    proof (cases res)
      case (Returned e)
      show ?thesis
      proof (cases e)
        case None
        with Cons.prems Inr h Returned
        have "handleWebRTCConnection_loop lib m reads tr1 = (Blocked AwaitRead, tr)" by simp
        from Cons.IH[OF this] Inr h Returned None show ?thesis by simp
      next
        case (Some err)
        with Cons.prems Inr h Returned
        have "handleWebRTCConnection_loop lib m reads
                (tr1 @ [Log (''Failed to handle signaling message: '' @ err)]) =
              (Blocked AwaitRead, tr)"
          by simp
        from Cons.IH[OF this] Inr h Returned Some show ?thesis by simp
      qed
    next
      case (Panicked p)
      with Cons.prems Inr h show ?thesis by simp
    next
      case (Blocked w)
      with Cons.prems Inr h res show ?thesis by simp
    qed
  qed
qed

text \<open>
  What the inner loop does when it ends: it appends only writes to its own track and log
  lines, the samples written are the ones \<open>Pop\<close> returned, in order, and the reassembler
  is left where \<open>Pop\<close> first returned \<^verbatim>\<open>nil\<close>.
\<close>

lemma popLoop_Some:
  assumes "popLoop lib med track kind sb tr = Some r"
  shows "\<exists>n evs. snd r = tr @ evs \<and> (\<forall>e\<in>set evs. touchesOnly track e)
                 \<and> popSamples med n sb = Some (written track evs, fst r)"
proof (rule popLoop.raw_induct
    [where P = "\<lambda>lib med track kind sb tr r.
                  \<exists>n evs. snd r = tr @ evs \<and> (\<forall>e\<in>set evs. touchesOnly track e)
                          \<and> popSamples med n sb = Some (written track evs, fst r)",
     OF _ assms])
  fix f :: "library \<Rightarrow> 'a media \<Rightarrow> Track \<Rightarrow> string \<Rightarrow> 'a \<Rightarrow> event list \<Rightarrow> ('a \<times> event list) option"
    and lib med track kind sb tr r
  assume IH: "\<And>lib med track kind sb tr r. f lib med track kind sb tr = Some r \<Longrightarrow>
                \<exists>n evs. snd r = tr @ evs \<and> (\<forall>e\<in>set evs. touchesOnly track e)
                        \<and> popSamples med n sb = Some (written track evs, fst r)"
    and body: "(case sb_Pop med sb of
         (None, sb1) \<Rightarrow> Some (sb1, tr)
       | (Some sample, sb1) \<Rightarrow>
          (case call lib (WriteSample track sample) tr of
             (Some err, tr1) \<Rightarrow>
               f lib med track kind sb1 (tr1 @ [Log (''Error writing '' @ kind @ '' sample: '' @ err)])
           | (None, tr1) \<Rightarrow> f lib med track kind sb1 tr1)) = Some r"
  obtain s sb1 where pop: "sb_Pop med sb = (s, sb1)" by (cases "sb_Pop med sb")
  show "\<exists>n evs. snd r = tr @ evs \<and> (\<forall>e\<in>set evs. touchesOnly track e)
                \<and> popSamples med n sb = Some (written track evs, fst r)"
  proof (cases s)
    case None
    with pop body have "r = (sb1, tr)" by auto
    with pop None have "snd r = tr @ [] \<and> (\<forall>e\<in>set []. touchesOnly track e)
        \<and> popSamples med (Suc 0) sb = Some (written track [], fst r)"
      by simp
    then show ?thesis by blast
  next
    case (Some sample)
    define logs where "logs = (case lib_error lib tr (WriteSample track sample) of
        None \<Rightarrow> [] | Some err \<Rightarrow> [Log (''Error writing '' @ kind @ '' sample: '' @ err)])"
    from pop Some body
    have "f lib med track kind sb1 (tr @ WriteSample track sample # logs) = Some r"
      by (auto simp: call_def logs_def split: option.splits)
    from IH[OF this] obtain n evs where
      tr': "snd r = (tr @ WriteSample track sample # logs) @ evs"
      and only: "\<forall>e\<in>set evs. touchesOnly track e"
      and pops: "popSamples med n sb1 = Some (written track evs, fst r)"
      by blast
    have logs: "\<forall>e\<in>set logs. touchesOnly track e" "written track (logs @ evs) = written track evs"
      by (auto simp: logs_def split: option.splits)
    from tr' have "snd r = tr @ (WriteSample track sample # logs @ evs)" by simp
    moreover from only logs
    have "\<forall>e\<in>set (WriteSample track sample # logs @ evs). touchesOnly track e" by auto
    moreover from pop Some pops logs
    have "popSamples med (Suc n) sb =
            Some (written track (WriteSample track sample # logs @ evs), fst r)"
      by simp
    ultimately show ?thesis by blast
  qed
qed

text \<open>The inner loop ends whenever the reassembler runs dry.\<close>

lemma popLoop_drains:
  "drains med n sb \<Longrightarrow> \<exists>r. popLoop lib med track kind sb tr = Some r"
proof (induction n arbitrary: sb tr)
  case 0
  then show ?case by simp
next
  case (Suc n)
  then show ?case
    by (subst popLoop.simps) (auto simp: call_def split: prod.splits option.splits)
qed



section \<open>The claims\<close>

text \<open>
  C1. Take a session built by \<open>newWebRTCManager\<close> whose read loop has handled any
  earlier messages and waits for the next, and an offer message the transport session
  accepts. \<open>handleOffer\<close> then writes exactly one message to the control channel, of type
  \<open>answer\<close>; the write comes after the wait for gathering to complete, and when gathering
  never completes nothing is written. The tracks registered on the peer connection are
  then exactly the video and the audio track, both registered in the construction trace,
  which holds no negotiation call, and none since. What a description says is the
  transport library's business: \<open>describes d ts\<close> reads ``description \<open>d\<close> reflects the
  tracks \<open>ts\<close>''. When the answer the library creates for this offer reflects the tracks
  registered on the peer connection, and the local description it reports after
  gathering reflects what that answer does, the description sent reflects exactly the
  video and the audio track.
\<close>

theorem offer_answered_once_after_gathering:
  assumes "newWebRTCManager lib [] = (Inr m, tr0)"
    and "handleWebRTCConnection_loop lib m (map Inr earlier) tr0 = (Blocked AwaitRead, tr)"
    and "Type msg = ''offer''" and "SDP msg = Some off"
    and "accepted lib tr off"
    and "describes (lib_CreateAnswer lib (tr @ [SetRemoteDescription off])) (registeredTracks tr)"
    and "\<exists>d. lib_LocalDescription lib (negotiated lib tr off @ [GatheringComplete]) = Some d
           \<and> (\<forall>ts. describes (lib_CreateAnswer lib (tr @ [SetRemoteDescription off])) ts
                  \<longrightarrow> describes d ts)"
  shows "handleWebRTCConnection_loop lib m (map Inr earlier @ [Inr msg]) tr0 =
           handleWebRTCConnection_loop lib m [Inr msg] tr
       \<and> handleSignalingMessage lib m msg tr = handleOffer lib m (Some off) tr
       \<and> (lib_gathered lib (negotiated lib tr off) \<longrightarrow>
            snd (handleOffer lib m (Some off) tr) =
              negotiated lib tr off @
                [GatheringComplete, LocalDescription,
                 WriteJSON (answerMessage lib (negotiated lib tr off))]
          \<and> outbound (snd (handleOffer lib m (Some off) tr)) =
              outbound tr @ [answerMessage lib (negotiated lib tr off)]
          \<and> Type (answerMessage lib (negotiated lib tr off)) = ''answer''
          \<and> (\<exists>d. SDP (answerMessage lib (negotiated lib tr off)) = Some d
                 \<and> describes d [video_track, audio_track])
          \<and> fst (handleOffer lib m (Some off) tr) =
              Returned (map_option ((@) ''failed to send answer: '')
                (lib_error lib
                   (negotiated lib tr off @ [GatheringComplete, LocalDescription])
                   (WriteJSON (answerMessage lib (negotiated lib tr off))))))
       \<and> (\<not> lib_gathered lib (negotiated lib tr off) \<longrightarrow>
            handleOffer lib m (Some off) tr = (Blocked AwaitGathering, negotiated lib tr off)
          \<and> outbound (snd (handleOffer lib m (Some off) tr)) = outbound tr)
       \<and> registeredTracks tr = [video_track, audio_track]
       \<and> registeredTracks tr0 = [video_track, audio_track]
       \<and> filter isNegotiation tr0 = []
       \<and> (\<exists>since. tr = tr0 @ since \<and> registeredTracks since = [])
       \<and> videoTrack m = video_track \<and> audioTrack m = audio_track"
proof -
  from newWebRTCManager_Inr[OF assms(1)] have m: "m = new_session" and tr0: "tr0 = new_trace"
    by simp_all
  have built: "registeredTracks tr0 = [video_track, audio_track]"
    "filter isNegotiation tr0 = []"
    "videoTrack m = video_track" "audioTrack m = audio_track"
    by (simp_all add: m tr0 new_session_def new_trace_def video_track_def audio_track_def)
  from handleWebRTCConnection_loop_extends[of lib m "map Inr earlier" tr0] assms(2)
  obtain since where since: "tr = tr0 @ since" "registeredTracks since = []"
    by auto
  with built have tracks: "registeredTracks tr = [video_track, audio_track]"
    by (simp add: registeredTracks_append)
  have loop: "handleWebRTCConnection_loop lib m (map Inr earlier @ [Inr msg]) tr0 =
      handleWebRTCConnection_loop lib m [Inr msg] tr"
    by (rule handleWebRTCConnection_loop_append[OF assms(2)])
  have dispatch: "handleSignalingMessage lib m msg tr = handleOffer lib m (Some off) tr"
    using assms(3,4) by (simp add: handleSignalingMessage_def)
  note offer = handleOffer_accepted[OF assms(5), of m]
  have sent_type: "Type (answerMessage lib (negotiated lib tr off)) = ''answer''"
    by (simp add: answerMessage_def)
  from assms(7) obtain d where
    d: "lib_LocalDescription lib (negotiated lib tr off @ [GatheringComplete]) = Some d"
    and keeps: "\<And>ts. describes (lib_CreateAnswer lib (tr @ [SetRemoteDescription off])) ts
                  \<Longrightarrow> describes d ts"
    by blast
  from keeps[OF assms(6)] tracks have "describes d [video_track, audio_track]" by simp
  with d have reflects: "\<exists>d. SDP (answerMessage lib (negotiated lib tr off)) = Some d
                 \<and> describes d [video_track, audio_track]"
    by (simp add: answerMessage_def)
  have gathered: "snd (handleOffer lib m (Some off) tr) =
              negotiated lib tr off @
                [GatheringComplete, LocalDescription,
                 WriteJSON (answerMessage lib (negotiated lib tr off))]
          \<and> outbound (snd (handleOffer lib m (Some off) tr)) =
              outbound tr @ [answerMessage lib (negotiated lib tr off)]
          \<and> fst (handleOffer lib m (Some off) tr) =
              Returned (map_option ((@) ''failed to send answer: '')
                (lib_error lib
                   (negotiated lib tr off @ [GatheringComplete, LocalDescription])
                   (WriteJSON (answerMessage lib (negotiated lib tr off)))))"
    if "lib_gathered lib (negotiated lib tr off)"
    using that offer by (simp add: outbound_append outbound_negotiated)
  have waiting: "handleOffer lib m (Some off) tr = (Blocked AwaitGathering, negotiated lib tr off)
          \<and> outbound (snd (handleOffer lib m (Some off) tr)) = outbound tr"
    if "\<not> lib_gathered lib (negotiated lib tr off)"
    using that offer by (simp add: outbound_negotiated)
  from loop dispatch gathered waiting sent_type reflects tracks built since show ?thesis
    by blast
qed

theorem offer_answered_once_after_gathering_witness:
  "newWebRTCManager plain_library [] = (Inr new_session, new_trace)
   \<and> handleWebRTCConnection_loop plain_library new_session (map Inr [end_of_candidates])
       new_trace = (Blocked AwaitRead, new_trace)
   \<and> Type offer_message = ''offer'' \<and> SDP offer_message = Some sample_offer
   \<and> accepted plain_library new_trace sample_offer
   \<and> listsTracks (lib_CreateAnswer plain_library (new_trace @ [SetRemoteDescription sample_offer]))
       (registeredTracks new_trace)
   \<and> lib_LocalDescription plain_library
       (negotiated plain_library new_trace sample_offer @ [GatheringComplete]) =
       Some (lib_CreateAnswer plain_library (new_trace @ [SetRemoteDescription sample_offer]))
   \<and> lib_gathered plain_library (negotiated plain_library new_trace sample_offer)
   \<and> outbound (snd (handleOffer plain_library new_session (Some sample_offer) new_trace)) =
       [\<lparr>Type = ''answer'',
         SDP = Some \<lparr>sdType = ''answer'', sdSDP = ''m=video;m=audio;''\<rparr>,
         ICE = None, Error = ''''\<rparr>]
   \<and> fst (handleOffer plain_library new_session (Some sample_offer) new_trace) = Returned None
   \<and> (\<exists>d. SDP (answerMessage plain_library (negotiated plain_library new_trace sample_offer))
             = Some d
          \<and> listsTracks d [video_track, audio_track])
   \<and> registeredTracks new_trace = [video_track, audio_track]"
proof -
  have new: "newWebRTCManager plain_library [] = (Inr new_session, new_trace)"
    by (simp add: newWebRTCManager_def plain_library_def call_def new_session_def
          new_trace_def Let_def)
  have earlier: "handleWebRTCConnection_loop plain_library new_session
      (map Inr [end_of_candidates]) new_trace = (Blocked AwaitRead, new_trace)"
    by (simp add: handleSignalingMessage_def handleICECandidate_def end_of_candidates_def)
  have msg: "Type offer_message = ''offer''" "SDP offer_message = Some sample_offer"
    by (simp_all add: offer_message_def)
  have acc: "accepted plain_library new_trace sample_offer"
    by (simp add: accepted_def plain_library_def)
  have answer: "listsTracks
      (lib_CreateAnswer plain_library (new_trace @ [SetRemoteDescription sample_offer]))
      (registeredTracks new_trace)"
    by (simp add: listsTracks_def plain_library_def answerFor_def registeredTracks_append)
  have local: "lib_LocalDescription plain_library
       (negotiated plain_library new_trace sample_offer @ [GatheringComplete]) =
       Some (lib_CreateAnswer plain_library (new_trace @ [SetRemoteDescription sample_offer]))"
    by (simp add: negotiated_def plain_library_def new_trace_def)
  from local have kept: "\<exists>d. lib_LocalDescription plain_library
       (negotiated plain_library new_trace sample_offer @ [GatheringComplete]) = Some d
     \<and> (\<forall>ts. listsTracks
           (lib_CreateAnswer plain_library (new_trace @ [SetRemoteDescription sample_offer])) ts
          \<longrightarrow> listsTracks d ts)"
    by simp
  have gathered:
    "lib_gathered plain_library (negotiated plain_library new_trace sample_offer)"
    by (simp add: plain_library_def)
  have sent: "answerMessage plain_library (negotiated plain_library new_trace sample_offer) =
      \<lparr>Type = ''answer'', SDP = Some \<lparr>sdType = ''answer'', sdSDP = ''m=video;m=audio;''\<rparr>,
       ICE = None, Error = ''''\<rparr>"
    by (simp add: answerMessage_def negotiated_def plain_library_def new_trace_def answerFor_def)
  have quiet: "outbound new_trace = []"
    by (simp add: new_trace_def)
  have ok: "lib_error plain_library tr ev = None" for tr ev
    by (simp add: plain_library_def)
  note claim = offer_answered_once_after_gathering[OF new earlier msg acc answer kept]
  from claim gathered
  have "outbound (snd (handleOffer plain_library new_session (Some sample_offer) new_trace)) =
      outbound new_trace @
        [answerMessage plain_library (negotiated plain_library new_trace sample_offer)]"
    by blast
  then have out:
    "outbound (snd (handleOffer plain_library new_session (Some sample_offer) new_trace)) =
      [\<lparr>Type = ''answer'',
        SDP = Some \<lparr>sdType = ''answer'', sdSDP = ''m=video;m=audio;''\<rparr>,
        ICE = None, Error = ''''\<rparr>]"
    by (simp only: sent quiet append_Nil)
  from claim gathered
  have "fst (handleOffer plain_library new_session (Some sample_offer) new_trace) =
      Returned (map_option ((@) ''failed to send answer: '')
        (lib_error plain_library
           (negotiated plain_library new_trace sample_offer
              @ [GatheringComplete, LocalDescription])
           (WriteJSON (answerMessage plain_library
              (negotiated plain_library new_trace sample_offer)))))"
    by blast
  then have res:
    "fst (handleOffer plain_library new_session (Some sample_offer) new_trace) = Returned None"
    by (simp only: ok option.map)
  from claim gathered have reflects:
    "\<exists>d. SDP (answerMessage plain_library (negotiated plain_library new_trace sample_offer))
             = Some d
          \<and> listsTracks d [video_track, audio_track]"
    by blast
  from claim have tracks: "registeredTracks new_trace = [video_track, audio_track]"
    by blast
  from new earlier msg acc answer local gathered out res reflects tracks show ?thesis
    by blast
qed

text \<open>
  C2 (as amended). \<open>close\<close> on a session whose shutdown channel is open returns without
  a panic, whether or not the ingest socket was opened: it closes the channel, closes the
  socket only if there is one, closes the peer connection, and at most logs. A second
  \<open>close\<close> on the session it leaves panics, at the close of the closed channel.
\<close>

theorem close_once_returns_second_close_panics:
  assumes "stopChan m = OpenChan"
  shows "fst (close lib m tr) = Inr (m\<lparr>stopChan := ClosedChan\<rparr>)
       \<and> snd (close lib m tr) =
           tr @ (case udpListener m of None \<Rightarrow> [] | Some c \<Rightarrow> [UDPClose])
              @ [PeerConnectionClose]
              @ (case lib_error lib (tr @ (case udpListener m of None \<Rightarrow> [] | Some c \<Rightarrow> [UDPClose]))
                        PeerConnectionClose of
                   None \<Rightarrow> []
                 | Some err \<Rightarrow> [Log (''Error closing peer connection: '' @ err)])
       \<and> close lib (m\<lparr>stopChan := ClosedChan\<rparr>) tr' = (Inl CloseOfClosedChannel, tr')"
  using assms
  by (simp add: close_def call_def Let_def split: option.splits)

theorem close_once_returns_second_close_panics_witness:
  "stopChan new_session = OpenChan
   \<and> close plain_library new_session [] =
       (Inr (new_session\<lparr>stopChan := ClosedChan\<rparr>), [PeerConnectionClose])
   \<and> close plain_library (new_session\<lparr>stopChan := ClosedChan\<rparr>) [PeerConnectionClose] =
       (Inl CloseOfClosedChannel, [PeerConnectionClose])"
proof -
  have h: "stopChan new_session = OpenChan"
    by (simp add: new_session_def)
  have none: "udpListener new_session = None" "lib_error plain_library tr ev = None" for tr ev
    by (simp_all add: new_session_def plain_library_def)
  from close_once_returns_second_close_panics[OF h, of plain_library "[]" "[PeerConnectionClose]"]
    none h
  show ?thesis by (simp add: prod_eq_iff)
qed

text \<open>
  C2 as stated fails: on the session that \<open>newWebRTCManager\<close> builds, the first
  \<open>close\<close> returns and the second one panics.
\<close>

theorem close_twice_counterexample:
  "close plain_library new_session [] =
     (Inr (new_session\<lparr>stopChan := ClosedChan\<rparr>), [PeerConnectionClose])
   \<and> fst (close plain_library (new_session\<lparr>stopChan := ClosedChan\<rparr>) [PeerConnectionClose]) =
       Inl CloseOfClosedChannel"
  by (simp add: close_def call_def Let_def plain_library_def new_session_def)

text \<open>
  C3. A message whose type is neither \<open>offer\<close> nor \<open>ice\<close> makes
  \<open>handleSignalingMessage\<close> return the error \<open>unknown message type: \<close> followed by the
  type; no call is made, so nothing is written to the control channel; and the read loop
  logs the error and goes on with the messages that follow.
\<close>

theorem unknown_type_rejected_loop_continues:
  assumes "Type msg \<noteq> ''offer''" and "Type msg \<noteq> ''ice''"
  shows "handleSignalingMessage lib m msg tr =
           (Returned (Some (''unknown message type: '' @ Type msg)), tr)
       \<and> handleWebRTCConnection_loop lib m (Inr msg # rest) tr =
           handleWebRTCConnection_loop lib m rest
             (tr @ [Log (''Failed to handle signaling message: unknown message type: ''
                           @ Type msg)])
       \<and> outbound (tr @ [Log (''Failed to handle signaling message: unknown message type: ''
                           @ Type msg)]) = outbound tr"
  using assms by (simp add: handleSignalingMessage_def outbound_append)

theorem unknown_type_rejected_loop_continues_witness:
  "Type bogus_message \<noteq> ''offer'' \<and> Type bogus_message \<noteq> ''ice''
   \<and> handleSignalingMessage plain_library new_session bogus_message new_trace =
       (Returned (Some ''unknown message type: bogus''), new_trace)
   \<and> handleWebRTCConnection_loop plain_library new_session
       [Inr bogus_message, Inr end_of_candidates] new_trace =
       (Blocked AwaitRead,
        new_trace @
          [Log ''Failed to handle signaling message: unknown message type: bogus''])"
proof -
  have h: "Type bogus_message \<noteq> ''offer''" "Type bogus_message \<noteq> ''ice''"
    by (simp_all add: bogus_message_def)
  have t: "Type bogus_message = ''bogus''"
    by (simp add: bogus_message_def)
  have next_one: "handleWebRTCConnection_loop plain_library new_session [Inr end_of_candidates] tr
      = (Blocked AwaitRead, tr)" for tr
    by (simp add: handleSignalingMessage_def handleICECandidate_def end_of_candidates_def)
  from unknown_type_rejected_loop_continues[OF h, of plain_library new_session new_trace
      "[Inr end_of_candidates]"] h t next_one
  show ?thesis by simp
qed

text \<open>
  C4. For a message of type \<open>ice\<close>: without a candidate, the handler returns no error
  and leaves the trace as it was (no call on the transport session, nothing written); with
  a candidate, it makes the one call \<open>AddICECandidate\<close> on it and returns that call's
  error.
\<close>

theorem ice_candidate_registered_or_ignored:
  assumes "Type msg = ''ice''"
  shows "(ICE msg = None \<longrightarrow>
            handleSignalingMessage lib m msg tr = (Returned None, tr))
       \<and> (\<forall>c. ICE msg = Some c \<longrightarrow>
            handleSignalingMessage lib m msg tr =
              (Returned (lib_error lib tr (AddICECandidate c)), tr @ [AddICECandidate c])
            \<and> outbound (tr @ [AddICECandidate c]) = outbound tr)
       \<and> handleICECandidate lib m None tr = (Returned None, tr)
       \<and> handleICECandidate lib m (Some c') tr =
            (Returned (lib_error lib tr (AddICECandidate c')), tr @ [AddICECandidate c'])"
  using assms
  by (simp add: handleSignalingMessage_def handleICECandidate_def call_def outbound_append)

theorem ice_candidate_registered_or_ignored_witness:
  "Type end_of_candidates = ''ice'' \<and> ICE end_of_candidates = None
   \<and> handleSignalingMessage plain_library new_session end_of_candidates new_trace =
       (Returned None, new_trace)
   \<and> Type (end_of_candidates\<lparr>ICE := Some sample_candidate\<rparr>) = ''ice''
   \<and> handleSignalingMessage plain_library new_session
       (end_of_candidates\<lparr>ICE := Some sample_candidate\<rparr>) new_trace =
       (Returned None, new_trace @ [AddICECandidate sample_candidate])"
proof -
  have h1: "Type end_of_candidates = ''ice''"
    and n1: "ICE end_of_candidates = None"
    and h2: "Type (end_of_candidates\<lparr>ICE := Some sample_candidate\<rparr>) = ''ice''"
    by (simp_all add: end_of_candidates_def)
  have ok: "lib_error plain_library tr ev = None" for tr ev
    by (simp add: plain_library_def)
  from ice_candidate_registered_or_ignored[OF h1, of plain_library new_session new_trace]
    ice_candidate_registered_or_ignored[OF h2, of plain_library new_session new_trace]
    h1 n1 h2 ok
  show ?thesis by simp
qed

text \<open>
  C5. The ingest loop dispatches a parsed packet on its payload type. With any identifier
  other than 96 and 111 the packet is dropped: the loop goes on to its next turn with
  reassemblers and trace as they were, and nothing is logged. With 96 the loop pushes the
  packet into the video reassembler and writes the samples that reassembler then gives
  up, in order, to the video track, before its next turn; the audio reassembler is
  unchanged and every event added is a write to the video track or a log line. With 111
  the same holds with audio and video exchanged. The turn ends whenever the reassembler
  runs dry.
\<close>

theorem payload_type_dispatch:
  "(PayloadType p \<noteq> 96 \<and> PayloadType p \<noteq> 111 \<longrightarrow>
      handleMedia_switch lib med m bufs p tr = Some (bufs, tr)
      \<and> (rtp_Unmarshal med (take 1500 datagram) = Inr p \<longrightarrow>
           handleMedia_loop lib med m (Read (Inr datagram) # ticks) bufs tr =
           handleMedia_loop lib med m ticks bufs tr))
 \<and> (PayloadType p = 96 \<longrightarrow> handleMedia_switch lib med m bufs p tr = Some (bufs', tr') \<longrightarrow>
      audioBuffer bufs' = audioBuffer bufs
      \<and> (\<exists>n evs. tr' = tr @ evs \<and> (\<forall>e\<in>set evs. touchesOnly (videoTrack m) e)
            \<and> popSamples med n (sb_Push med (videoBuffer bufs) p) =
                Some (written (videoTrack m) evs, videoBuffer bufs')))
 \<and> (PayloadType p = 111 \<longrightarrow> handleMedia_switch lib med m bufs p tr = Some (bufs', tr') \<longrightarrow>
      videoBuffer bufs' = videoBuffer bufs
      \<and> (\<exists>n evs. tr' = tr @ evs \<and> (\<forall>e\<in>set evs. touchesOnly (audioTrack m) e)
            \<and> popSamples med n (sb_Push med (audioBuffer bufs) p) =
                Some (written (audioTrack m) evs, audioBuffer bufs')))
 \<and> (PayloadType p = 96 \<longrightarrow> drains med k (sb_Push med (videoBuffer bufs) p) \<longrightarrow>
      handleMedia_switch lib med m bufs p tr \<noteq> None)
 \<and> (PayloadType p = 111 \<longrightarrow> drains med k (sb_Push med (audioBuffer bufs) p) \<longrightarrow>
      handleMedia_switch lib med m bufs p tr \<noteq> None)
 \<and> (rtp_Unmarshal med (take 1500 datagram) = Inr p \<longrightarrow> PayloadType p = 96 \<longrightarrow>
      handleMedia_loop lib med m (Read (Inr datagram) # ticks) bufs tr =
        (case popLoop lib med (videoTrack m) ''video''
                (sb_Push med (videoBuffer bufs) p) tr of
           None \<Rightarrow> None
         | Some (sb, tr1) \<Rightarrow> handleMedia_loop lib med m ticks (bufs\<lparr>videoBuffer := sb\<rparr>) tr1)
      \<and> (drains med k (sb_Push med (videoBuffer bufs) p) \<longrightarrow>
           handleMedia_loop lib med m [Read (Inr datagram)] bufs tr \<noteq> None)
      \<and> (handleMedia_loop lib med m [Read (Inr datagram)] bufs tr = Some (t, bufs', tr') \<longrightarrow>
           t = Running \<and> audioBuffer bufs' = audioBuffer bufs
           \<and> (\<exists>n evs. tr' = tr @ evs \<and> (\<forall>e\<in>set evs. touchesOnly (videoTrack m) e)
                 \<and> popSamples med n (sb_Push med (videoBuffer bufs) p) =
                     Some (written (videoTrack m) evs, videoBuffer bufs'))))
 \<and> (rtp_Unmarshal med (take 1500 datagram) = Inr p \<longrightarrow> PayloadType p = 111 \<longrightarrow>
      handleMedia_loop lib med m (Read (Inr datagram) # ticks) bufs tr =
        (case popLoop lib med (audioTrack m) ''audio''
                (sb_Push med (audioBuffer bufs) p) tr of
           None \<Rightarrow> None
         | Some (sb, tr1) \<Rightarrow> handleMedia_loop lib med m ticks (bufs\<lparr>audioBuffer := sb\<rparr>) tr1)
      \<and> (drains med k (sb_Push med (audioBuffer bufs) p) \<longrightarrow>
           handleMedia_loop lib med m [Read (Inr datagram)] bufs tr \<noteq> None)
      \<and> (handleMedia_loop lib med m [Read (Inr datagram)] bufs tr = Some (t, bufs', tr') \<longrightarrow>
           t = Running \<and> videoBuffer bufs' = videoBuffer bufs
           \<and> (\<exists>n evs. tr' = tr @ evs \<and> (\<forall>e\<in>set evs. touchesOnly (audioTrack m) e)
                 \<and> popSamples med n (sb_Push med (audioBuffer bufs) p) =
                     Some (written (audioTrack m) evs, audioBuffer bufs'))))"
proof -
  have other: "handleMedia_switch lib med m bufs p tr = Some (bufs, tr)"
    if "PayloadType p \<noteq> 96" "PayloadType p \<noteq> 111"
    using that by (simp add: handleMedia_switch_def)
  have video: "audioBuffer bufs' = audioBuffer bufs
      \<and> (\<exists>n evs. tr' = tr @ evs \<and> (\<forall>e\<in>set evs. touchesOnly (videoTrack m) e)
            \<and> popSamples med n (sb_Push med (videoBuffer bufs) p) =
                Some (written (videoTrack m) evs, videoBuffer bufs'))"
    if pt: "PayloadType p = 96"
      and res: "handleMedia_switch lib med m bufs p tr = Some (bufs', tr')"
  proof -
    from pt res obtain sb where
      loop: "popLoop lib med (videoTrack m) ''video'' (sb_Push med (videoBuffer bufs) p) tr =
               Some (sb, tr')"
      and bufs': "bufs' = bufs\<lparr>videoBuffer := sb\<rparr>"
      by (auto simp: handleMedia_switch_def split: option.splits)
    from popLoop_Some[OF loop] bufs' show ?thesis by simp
  qed
  have audio: "videoBuffer bufs' = videoBuffer bufs
      \<and> (\<exists>n evs. tr' = tr @ evs \<and> (\<forall>e\<in>set evs. touchesOnly (audioTrack m) e)
            \<and> popSamples med n (sb_Push med (audioBuffer bufs) p) =
                Some (written (audioTrack m) evs, audioBuffer bufs'))"
    if pt: "PayloadType p = 111"
      and res: "handleMedia_switch lib med m bufs p tr = Some (bufs', tr')"
  proof -
    from pt res obtain sb where
      loop: "popLoop lib med (audioTrack m) ''audio'' (sb_Push med (audioBuffer bufs) p) tr =
               Some (sb, tr')"
      and bufs': "bufs' = bufs\<lparr>audioBuffer := sb\<rparr>"
      by (auto simp: handleMedia_switch_def split: option.splits)
    from popLoop_Some[OF loop] bufs' show ?thesis by simp
  qed
  have video_returns: "handleMedia_switch lib med m bufs p tr \<noteq> None"
    if "PayloadType p = 96" "drains med k (sb_Push med (videoBuffer bufs) p)"
    using that popLoop_drains[OF that(2), of lib "videoTrack m" "''video''" tr]
    by (auto simp: handleMedia_switch_def)
  have audio_returns: "handleMedia_switch lib med m bufs p tr \<noteq> None"
    if "PayloadType p = 111" "drains med k (sb_Push med (audioBuffer bufs) p)"
    using that popLoop_drains[OF that(2), of lib "audioTrack m" "''audio''" tr]
    by (auto simp: handleMedia_switch_def)
  have turn: "handleMedia_loop lib med m (Read (Inr datagram) # ticks) bufs tr =
      (case handleMedia_switch lib med m bufs p tr of
         None \<Rightarrow> None
       | Some (bufs1, tr1) \<Rightarrow> handleMedia_loop lib med m ticks bufs1 tr1)"
    if "rtp_Unmarshal med (take 1500 datagram) = Inr p" for ticks
    using that by simp
  have loop_video: "handleMedia_loop lib med m (Read (Inr datagram) # ticks) bufs tr =
        (case popLoop lib med (videoTrack m) ''video''
                (sb_Push med (videoBuffer bufs) p) tr of
           None \<Rightarrow> None
         | Some (sb, tr1) \<Rightarrow> handleMedia_loop lib med m ticks (bufs\<lparr>videoBuffer := sb\<rparr>) tr1)"
    if "rtp_Unmarshal med (take 1500 datagram) = Inr p" "PayloadType p = 96"
    using that by (simp add: turn handleMedia_switch_def split: option.splits)
  have loop_audio: "handleMedia_loop lib med m (Read (Inr datagram) # ticks) bufs tr =
        (case popLoop lib med (audioTrack m) ''audio''
                (sb_Push med (audioBuffer bufs) p) tr of
           None \<Rightarrow> None
         | Some (sb, tr1) \<Rightarrow> handleMedia_loop lib med m ticks (bufs\<lparr>audioBuffer := sb\<rparr>) tr1)"
    if "rtp_Unmarshal med (take 1500 datagram) = Inr p" "PayloadType p = 111"
    using that by (simp add: turn handleMedia_switch_def split: option.splits)
  have one: "t = Running \<and> handleMedia_switch lib med m bufs p tr = Some (bufs', tr')"
    if "rtp_Unmarshal med (take 1500 datagram) = Inr p"
      "handleMedia_loop lib med m [Read (Inr datagram)] bufs tr = Some (t, bufs', tr')"
    using that by (auto simp: turn split: option.splits)
  have one_returns: "handleMedia_loop lib med m [Read (Inr datagram)] bufs tr \<noteq> None"
    if "rtp_Unmarshal med (take 1500 datagram) = Inr p"
      "handleMedia_switch lib med m bufs p tr \<noteq> None"
    using that by (auto simp: turn split: option.splits)
  have part1: "PayloadType p \<noteq> 96 \<and> PayloadType p \<noteq> 111 \<longrightarrow>
      handleMedia_switch lib med m bufs p tr = Some (bufs, tr)
      \<and> (rtp_Unmarshal med (take 1500 datagram) = Inr p \<longrightarrow>
           handleMedia_loop lib med m (Read (Inr datagram) # ticks) bufs tr =
           handleMedia_loop lib med m ticks bufs tr)"
    using other by (simp add: turn)
  have part6: "rtp_Unmarshal med (take 1500 datagram) = Inr p \<longrightarrow> PayloadType p = 96 \<longrightarrow>
      handleMedia_loop lib med m (Read (Inr datagram) # ticks) bufs tr =
        (case popLoop lib med (videoTrack m) ''video''
                (sb_Push med (videoBuffer bufs) p) tr of
           None \<Rightarrow> None
         | Some (sb, tr1) \<Rightarrow> handleMedia_loop lib med m ticks (bufs\<lparr>videoBuffer := sb\<rparr>) tr1)
      \<and> (drains med k (sb_Push med (videoBuffer bufs) p) \<longrightarrow>
           handleMedia_loop lib med m [Read (Inr datagram)] bufs tr \<noteq> None)
      \<and> (handleMedia_loop lib med m [Read (Inr datagram)] bufs tr = Some (t, bufs', tr') \<longrightarrow>
           t = Running \<and> audioBuffer bufs' = audioBuffer bufs
           \<and> (\<exists>n evs. tr' = tr @ evs \<and> (\<forall>e\<in>set evs. touchesOnly (videoTrack m) e)
                 \<and> popSamples med n (sb_Push med (videoBuffer bufs) p) =
                     Some (written (videoTrack m) evs, videoBuffer bufs')))"
    using loop_video video video_returns one one_returns by blast
  have part7: "rtp_Unmarshal med (take 1500 datagram) = Inr p \<longrightarrow> PayloadType p = 111 \<longrightarrow>
      handleMedia_loop lib med m (Read (Inr datagram) # ticks) bufs tr =
        (case popLoop lib med (audioTrack m) ''audio''
                (sb_Push med (audioBuffer bufs) p) tr of
           None \<Rightarrow> None
         | Some (sb, tr1) \<Rightarrow> handleMedia_loop lib med m ticks (bufs\<lparr>audioBuffer := sb\<rparr>) tr1)
      \<and> (drains med k (sb_Push med (audioBuffer bufs) p) \<longrightarrow>
           handleMedia_loop lib med m [Read (Inr datagram)] bufs tr \<noteq> None)
      \<and> (handleMedia_loop lib med m [Read (Inr datagram)] bufs tr = Some (t, bufs', tr') \<longrightarrow>
           t = Running \<and> videoBuffer bufs' = videoBuffer bufs
           \<and> (\<exists>n evs. tr' = tr @ evs \<and> (\<forall>e\<in>set evs. touchesOnly (audioTrack m) e)
                 \<and> popSamples med n (sb_Push med (audioBuffer bufs) p) =
                     Some (written (audioTrack m) evs, audioBuffer bufs')))"
    using loop_audio audio audio_returns one one_returns by blast
  from part1 video audio video_returns audio_returns part6 part7 show ?thesis
    by blast
qed

theorem payload_type_dispatch_witness:
  "PayloadType video_packet = 96
   \<and> handleMedia_switch plain_library queue_media new_session empty_buffers video_packet [] =
       Some (empty_buffers, [WriteSample (videoTrack new_session) (Sample [1, 2] 3000)])
   \<and> drains queue_media 2 (sb_Push queue_media (videoBuffer empty_buffers) video_packet)
   \<and> (\<exists>n evs. [WriteSample (videoTrack new_session) (Sample [1, 2] 3000)] = [] @ evs
         \<and> (\<forall>e\<in>set evs. touchesOnly (videoTrack new_session) e)
         \<and> popSamples queue_media n (sb_Push queue_media (videoBuffer empty_buffers) video_packet)
             = Some (written (videoTrack new_session) evs, videoBuffer empty_buffers))
   \<and> PayloadType other_packet \<noteq> 96 \<and> PayloadType other_packet \<noteq> 111
   \<and> handleMedia_switch plain_library queue_media new_session empty_buffers other_packet [] =
       Some (empty_buffers, [])
   \<and> rtp_Unmarshal queue_media (take 1500 [96, 1, 5]) = Inr (parsed_packet 96)
   \<and> rtp_Unmarshal queue_media (take 1500 [111, 1, 5]) = Inr (parsed_packet 111)
   \<and> rtp_Unmarshal queue_media (take 1500 [0, 1, 5]) = Inr (parsed_packet 0)
   \<and> handleMedia_loop plain_library queue_media new_session [Read (Inr [96, 1, 5]), Stop]
       empty_buffers [] =
       Some (Exited, empty_buffers, [WriteSample (videoTrack new_session) (Sample [5] 0)])
   \<and> handleMedia_loop plain_library queue_media new_session [Read (Inr [111, 1, 5]), Stop]
       empty_buffers [] =
       Some (Exited, empty_buffers, [WriteSample (audioTrack new_session) (Sample [5] 0)])
   \<and> handleMedia_loop plain_library queue_media new_session [Read (Inr [0, 1, 5]), Stop]
       empty_buffers [] =
       Some (Exited, empty_buffers, [])"
proof -
  have pt: "PayloadType video_packet = 96"
    by (simp add: video_packet_def)
  have run: "handleMedia_switch plain_library queue_media new_session empty_buffers video_packet []
      = Some (empty_buffers, [WriteSample (videoTrack new_session) (Sample [1, 2] 3000)])"
    by (simp add: handleMedia_switch_def popLoop.simps queue_media_def new_session_def
          empty_buffers_def video_packet_def call_def plain_library_def)
  have dry: "drains queue_media 2 (sb_Push queue_media (videoBuffer empty_buffers) video_packet)"
    by (simp add: numeral_2_eq_2 queue_media_def empty_buffers_def)
  have pt': "PayloadType other_packet \<noteq> 96" "PayloadType other_packet \<noteq> 111"
    by (simp_all add: other_packet_def)
  note at_video = payload_type_dispatch[where p = video_packet and lib = plain_library
      and med = queue_media and m = new_session and bufs = empty_buffers and tr = "[]"
      and bufs' = empty_buffers
      and tr' = "[WriteSample (videoTrack new_session) (Sample [1, 2] 3000)]"]
  note at_other = payload_type_dispatch[where p = other_packet and lib = plain_library
      and med = queue_media and m = new_session and bufs = empty_buffers and tr = "[]"]
  from at_video pt run have popped:
    "\<exists>n evs. [WriteSample (videoTrack new_session) (Sample [1, 2] 3000)] = [] @ evs
         \<and> (\<forall>e\<in>set evs. touchesOnly (videoTrack new_session) e)
         \<and> popSamples queue_media n (sb_Push queue_media (videoBuffer empty_buffers) video_packet)
             = Some (written (videoTrack new_session) evs, videoBuffer empty_buffers)"
    by blast
  from at_other pt' have dropped:
    "handleMedia_switch plain_library queue_media new_session empty_buffers other_packet [] =
       Some (empty_buffers, [])"
    by blast
  have parsed: "rtp_Unmarshal queue_media (take 1500 [pt, 1, 5]) = Inr (parsed_packet pt)" for pt
    by (simp add: queue_media_def parsed_packet_def)
  have pts: "PayloadType (parsed_packet pt) = pt" for pt
    by (simp add: parsed_packet_def)
  note in_loop = payload_type_dispatch[where lib = plain_library and med = queue_media
      and m = new_session and bufs = empty_buffers and tr = "[]" and ticks = "[Stop]"]
  from in_loop[where p = "parsed_packet 96" and datagram = "[96, 1, 5]"] parsed[of 96] pts[of 96]
  have "handleMedia_loop plain_library queue_media new_session [Read (Inr [96, 1, 5]), Stop]
       empty_buffers [] =
       (case popLoop plain_library queue_media (videoTrack new_session) ''video''
                (sb_Push queue_media (videoBuffer empty_buffers) (parsed_packet 96)) [] of
           None \<Rightarrow> None
         | Some (sb, tr1) \<Rightarrow>
             handleMedia_loop plain_library queue_media new_session [Stop]
               (empty_buffers\<lparr>videoBuffer := sb\<rparr>) tr1)"
    by blast
  then have loop_video:
    "handleMedia_loop plain_library queue_media new_session [Read (Inr [96, 1, 5]), Stop]
       empty_buffers [] =
       Some (Exited, empty_buffers, [WriteSample (videoTrack new_session) (Sample [5] 0)])"
    by (simp add: popLoop.simps queue_media_def empty_buffers_def parsed_packet_def call_def
          plain_library_def)
  from in_loop[where p = "parsed_packet 111" and datagram = "[111, 1, 5]"] parsed[of 111]
    pts[of 111]
  have "handleMedia_loop plain_library queue_media new_session [Read (Inr [111, 1, 5]), Stop]
       empty_buffers [] =
       (case popLoop plain_library queue_media (audioTrack new_session) ''audio''
                (sb_Push queue_media (audioBuffer empty_buffers) (parsed_packet 111)) [] of
           None \<Rightarrow> None
         | Some (sb, tr1) \<Rightarrow>
             handleMedia_loop plain_library queue_media new_session [Stop]
               (empty_buffers\<lparr>audioBuffer := sb\<rparr>) tr1)"
    by blast
  then have loop_audio:
    "handleMedia_loop plain_library queue_media new_session [Read (Inr [111, 1, 5]), Stop]
       empty_buffers [] =
       Some (Exited, empty_buffers, [WriteSample (audioTrack new_session) (Sample [5] 0)])"
    by (simp add: popLoop.simps queue_media_def empty_buffers_def parsed_packet_def call_def
          plain_library_def)
  from in_loop[where p = "parsed_packet 0" and datagram = "[0, 1, 5]"] parsed[of 0] pts[of 0]
  have loop_other:
    "handleMedia_loop plain_library queue_media new_session [Read (Inr [0, 1, 5]), Stop]
       empty_buffers [] =
       Some (Exited, empty_buffers, [])"
    by simp
  from pt run dry popped pt' dropped parsed[of 96] parsed[of 111] parsed[of 0]
    loop_video loop_audio loop_other
  show ?thesis by blast
qed




text \<open>
  C8. Through any run of turns in which the read times out, the read fails otherwise, or
  the datagram does not parse, the ingest loop keeps going: it carries on with the turns
  that follow, with both reassemblers as they were, having logged one line for each read
  error that is not a timeout and for each datagram that does not parse, and nothing for
  a timeout. After such a run the loop is still running, and it ends only at the next
  turn that finds the shutdown channel closed.
\<close>

theorem ingest_failures_do_not_end_loop:
  assumes "\<forall>t\<in>set ticks. failedTurn med t"
  shows "handleMedia_loop lib med m (ticks @ rest) bufs tr =
           handleMedia_loop lib med m rest bufs (tr @ concat (map (turnLog med) ticks))
       \<and> handleMedia_loop lib med m ticks bufs tr =
           Some (Running, bufs, tr @ concat (map (turnLog med) ticks))
       \<and> handleMedia_loop lib med m (ticks @ Stop # rest) bufs tr =
           Some (Exited, bufs, tr @ concat (map (turnLog med) ticks))"
proof -
  have run: "handleMedia_loop lib med m (ticks @ rest) bufs tr =
      handleMedia_loop lib med m rest bufs (tr @ concat (map (turnLog med) ticks))" for rest
    using assms
  proof (induction ticks arbitrary: tr)
    case Nil
    show ?case by simp
  next
    case (Cons t ticks)
    show ?case
    proof (cases t)
      case Stop
      with Cons.prems show ?thesis by simp
    next
      case (Read r)
      show ?thesis
      proof (cases r)
        case (Inl err)
        obtain timeout msg where "err = NetError timeout msg" by (cases err)
        with Cons Read Inl show ?thesis by simp
      next
        case (Inr datagram)
        with Cons Read show ?thesis by (simp split: sum.splits)
      qed
    qed
  qed
  from run[of rest] run[of "[]"] run[of "Stop # rest"] show ?thesis by simp
qed

theorem ingest_failures_do_not_end_loop_witness:
  "failedTurn queue_media (Read (Inl (NetError True ''i/o timeout'')))
   \<and> failedTurn queue_media (Read (Inl (NetError False ''connection refused'')))
   \<and> failedTurn queue_media (Read (Inr [96]))
   \<and> handleMedia_loop plain_library queue_media new_session
       ([Read (Inl (NetError True ''i/o timeout'')),
         Read (Inl (NetError False ''connection refused'')),
         Read (Inr [96])] @ Stop # [])
       empty_buffers [] =
       Some (Exited, empty_buffers,
             [Log ''Error during read: connection refused'',
              Log ''Error unmarshaling RTP packet: header size insufficient''])"
proof -
  have h: "\<forall>t\<in>set [Read (Inl (NetError True ''i/o timeout'')),
              Read (Inl (NetError False ''connection refused'')),
              Read (Inr [96])]. failedTurn queue_media t"
    by (simp add: queue_media_def)
  have logs: "[] @ concat (map (turnLog queue_media)
      [Read (Inl (NetError True ''i/o timeout'')),
       Read (Inl (NetError False ''connection refused'')),
       Read (Inr [96])]) =
      [Log ''Error during read: connection refused'',
       Log ''Error unmarshaling RTP packet: header size insufficient'']"
    by (simp add: queue_media_def)
  from ingest_failures_do_not_end_loop[OF h, of plain_library new_session "[]" empty_buffers "[]"]
  have "handleMedia_loop plain_library queue_media new_session
       ([Read (Inl (NetError True ''i/o timeout'')),
         Read (Inl (NetError False ''connection refused'')),
         Read (Inr [96])] @ Stop # [])
       empty_buffers [] =
       Some (Exited, empty_buffers, [] @ concat (map (turnLog queue_media)
      [Read (Inl (NetError True ''i/o timeout'')),
       Read (Inl (NetError False ''connection refused'')),
       Read (Inr [96])]))"
    by blast
  then have run: "handleMedia_loop plain_library queue_media new_session
       ([Read (Inl (NetError True ''i/o timeout'')),
         Read (Inl (NetError False ''connection refused'')),
         Read (Inr [96])] @ Stop # [])
       empty_buffers [] =
       Some (Exited, empty_buffers,
             [Log ''Error during read: connection refused'',
              Log ''Error unmarshaling RTP packet: header size insufficient''])"
    by (simp only: logs)
  have each: "failedTurn queue_media (Read (Inl (NetError True ''i/o timeout'')))"
    "failedTurn queue_media (Read (Inl (NetError False ''connection refused'')))"
    "failedTurn queue_media (Read (Inr [96]))"
    using h by simp_all
  from each run show ?thesis by blast
qed

text \<open>
  C9. An \<open>offer\<close> message without a session description makes \<open>handleSignalingMessage\<close>
  call \<open>handleOffer\<close> on the \<^verbatim>\<open>nil\<close> pointer, which panics on the dereference, before
  any call on the peer connection, instead of returning an error; the panic leaves the
  read loop. With a description present \<open>handleOffer\<close> never panics.
\<close>

theorem offer_without_description_panics:
  assumes "Type msg = ''offer''" and "SDP msg = None"
  shows "handleSignalingMessage lib m msg tr = handleOffer lib m None tr
       \<and> handleOffer lib m None tr = (Panicked NilPointerDereference, tr)
       \<and> handleWebRTCConnection_loop lib m (Inr msg # rest) tr =
           (Panicked NilPointerDereference, tr)
       \<and> fst (handleOffer lib m (Some off) tr) \<noteq> Panicked p"
  using assms
  by (simp add: handleSignalingMessage_def handleOffer_def call_def Let_def
           split: option.splits)

theorem offer_without_description_panics_witness:
  "Type offer_without_sdp = ''offer'' \<and> SDP offer_without_sdp = None
   \<and> handleSignalingMessage plain_library new_session offer_without_sdp new_trace =
       (Panicked NilPointerDereference, new_trace)
   \<and> handleWebRTCConnection_loop plain_library new_session
       [Inr offer_without_sdp, Inr end_of_candidates] new_trace =
       (Panicked NilPointerDereference, new_trace)"
proof -
  have h: "Type offer_without_sdp = ''offer''" "SDP offer_without_sdp = None"
    by (simp_all add: offer_without_sdp_def)
  from offer_without_description_panics[OF h, of plain_library new_session new_trace
      "[Inr end_of_candidates]"] h
  show ?thesis by simp
qed

text \<open>
  C10. Once the peer connection exists (codec registration and \<open>NewPeerConnection\<close>
  succeeded), each of the four later steps that can fail (creating the video track,
  creating the audio track, adding the video track, adding the audio track) makes
  \<open>newWebRTCManager\<close> close the peer connection, as the last call it makes, and return
  the step's error and no manager. So whenever it returns an error after the peer
  connection was created, its trace ends with that one close. When no step fails it
  returns the manager and the peer connection is not closed.
\<close>

theorem construction_failure_closes_peer_connection:
  assumes "lib_error lib tr RegisterDefaultCodecs = None"
    and "lib_error lib (tr @ [RegisterDefaultCodecs])
           (NewPeerConnection [''stun:stun.l.google.com:19302'']) = None"
  shows "(lib_error lib (peerConnectionCreated tr)
            (NewTrackLocalStaticSample MimeTypeVP8 ''video'' ''pion'') = Some e \<longrightarrow>
          newWebRTCManager lib tr =
            (Inl (''failed to create video track: '' @ e),
             peerConnectionCreated tr @
               [NewTrackLocalStaticSample MimeTypeVP8 ''video'' ''pion'', PeerConnectionClose]))
       \<and> (lib_error lib (peerConnectionCreated tr)
            (NewTrackLocalStaticSample MimeTypeVP8 ''video'' ''pion'') = None \<longrightarrow>
          lib_error lib (peerConnectionCreated tr @
               [NewTrackLocalStaticSample MimeTypeVP8 ''video'' ''pion''])
            (NewTrackLocalStaticSample MimeTypeOpus ''audio'' ''pion'') = Some e \<longrightarrow>
          newWebRTCManager lib tr =
            (Inl (''failed to create audio track: '' @ e),
             peerConnectionCreated tr @
               [NewTrackLocalStaticSample MimeTypeVP8 ''video'' ''pion'',
                NewTrackLocalStaticSample MimeTypeOpus ''audio'' ''pion'', PeerConnectionClose]))
       \<and> (lib_error lib (peerConnectionCreated tr)
            (NewTrackLocalStaticSample MimeTypeVP8 ''video'' ''pion'') = None \<longrightarrow>
          lib_error lib (peerConnectionCreated tr @
               [NewTrackLocalStaticSample MimeTypeVP8 ''video'' ''pion''])
            (NewTrackLocalStaticSample MimeTypeOpus ''audio'' ''pion'') = None \<longrightarrow>
          lib_error lib (peerConnectionCreated tr @
               [NewTrackLocalStaticSample MimeTypeVP8 ''video'' ''pion'',
                NewTrackLocalStaticSample MimeTypeOpus ''audio'' ''pion''])
            (AddTrack video_track) = Some e \<longrightarrow>
          newWebRTCManager lib tr =
            (Inl (''failed to add video track: '' @ e),
             peerConnectionCreated tr @
               [NewTrackLocalStaticSample MimeTypeVP8 ''video'' ''pion'',
                NewTrackLocalStaticSample MimeTypeOpus ''audio'' ''pion'',
                AddTrack video_track, PeerConnectionClose]))
       \<and> (lib_error lib (peerConnectionCreated tr)
            (NewTrackLocalStaticSample MimeTypeVP8 ''video'' ''pion'') = None \<longrightarrow>
          lib_error lib (peerConnectionCreated tr @
               [NewTrackLocalStaticSample MimeTypeVP8 ''video'' ''pion''])
            (NewTrackLocalStaticSample MimeTypeOpus ''audio'' ''pion'') = None \<longrightarrow>
          lib_error lib (peerConnectionCreated tr @
               [NewTrackLocalStaticSample MimeTypeVP8 ''video'' ''pion'',
                NewTrackLocalStaticSample MimeTypeOpus ''audio'' ''pion''])
            (AddTrack video_track) = None \<longrightarrow>
          newWebRTCManager lib tr =
            (case lib_error lib (peerConnectionCreated tr @
                    [NewTrackLocalStaticSample MimeTypeVP8 ''video'' ''pion'',
                     NewTrackLocalStaticSample MimeTypeOpus ''audio'' ''pion'',
                     AddTrack video_track])
                  (AddTrack audio_track) of
               Some e' \<Rightarrow>
                 (Inl (''failed to add audio track: '' @ e'),
                  peerConnectionCreated tr @
                    [NewTrackLocalStaticSample MimeTypeVP8 ''video'' ''pion'',
                     NewTrackLocalStaticSample MimeTypeOpus ''audio'' ''pion'',
                     AddTrack video_track, AddTrack audio_track, PeerConnectionClose])
             | None \<Rightarrow>
                 (Inr \<lparr>videoTrack = video_track, audioTrack = audio_track,
                       udpListener = None, stopChan = OpenChan\<rparr>,
                  peerConnectionCreated tr @
                    [NewTrackLocalStaticSample MimeTypeVP8 ''video'' ''pion'',
                     NewTrackLocalStaticSample MimeTypeOpus ''audio'' ''pion'',
                     AddTrack video_track, AddTrack audio_track,
                     OnICECandidate, OnICEConnectionStateChange])))
       \<and> (newWebRTCManager lib tr = (Inl err, tr') \<longrightarrow>
            (\<exists>steps. tr' = peerConnectionCreated tr @ steps @ [PeerConnectionClose]
                     \<and> PeerConnectionClose \<notin> set steps))
       \<and> (newWebRTCManager lib tr = (Inr m', tr') \<longrightarrow> PeerConnectionClose \<notin> set (drop (length tr) tr'))"
proof -
  have video: "newWebRTCManager lib tr =
      (Inl (''failed to create video track: '' @ e),
       peerConnectionCreated tr @
         [NewTrackLocalStaticSample MimeTypeVP8 ''video'' ''pion'', PeerConnectionClose])"
    if "lib_error lib (peerConnectionCreated tr)
          (NewTrackLocalStaticSample MimeTypeVP8 ''video'' ''pion'') = Some e"
    using assms that
    by (simp add: newWebRTCManager_def call_def peerConnectionCreated_def)
  have audio: "newWebRTCManager lib tr =
      (Inl (''failed to create audio track: '' @ e),
       peerConnectionCreated tr @
         [NewTrackLocalStaticSample MimeTypeVP8 ''video'' ''pion'',
          NewTrackLocalStaticSample MimeTypeOpus ''audio'' ''pion'', PeerConnectionClose])"
    if "lib_error lib (peerConnectionCreated tr)
          (NewTrackLocalStaticSample MimeTypeVP8 ''video'' ''pion'') = None"
      "lib_error lib (peerConnectionCreated tr @
          [NewTrackLocalStaticSample MimeTypeVP8 ''video'' ''pion''])
          (NewTrackLocalStaticSample MimeTypeOpus ''audio'' ''pion'') = Some e"
    using assms that
    by (simp add: newWebRTCManager_def call_def peerConnectionCreated_def)
  have add_video: "newWebRTCManager lib tr =
      (Inl (''failed to add video track: '' @ e),
       peerConnectionCreated tr @
         [NewTrackLocalStaticSample MimeTypeVP8 ''video'' ''pion'',
          NewTrackLocalStaticSample MimeTypeOpus ''audio'' ''pion'',
          AddTrack video_track, PeerConnectionClose])"
    if "lib_error lib (peerConnectionCreated tr)
          (NewTrackLocalStaticSample MimeTypeVP8 ''video'' ''pion'') = None"
      "lib_error lib (peerConnectionCreated tr @
          [NewTrackLocalStaticSample MimeTypeVP8 ''video'' ''pion''])
          (NewTrackLocalStaticSample MimeTypeOpus ''audio'' ''pion'') = None"
      "lib_error lib (peerConnectionCreated tr @
          [NewTrackLocalStaticSample MimeTypeVP8 ''video'' ''pion'',
           NewTrackLocalStaticSample MimeTypeOpus ''audio'' ''pion''])
          (AddTrack video_track) = Some e"
    using assms that
    by (simp add: newWebRTCManager_def call_def peerConnectionCreated_def video_track_def
          audio_track_def Let_def)
  have add_audio: "newWebRTCManager lib tr =
      (case lib_error lib (peerConnectionCreated tr @
              [NewTrackLocalStaticSample MimeTypeVP8 ''video'' ''pion'',
               NewTrackLocalStaticSample MimeTypeOpus ''audio'' ''pion'',
               AddTrack video_track])
            (AddTrack audio_track) of
         Some e' \<Rightarrow>
           (Inl (''failed to add audio track: '' @ e'),
            peerConnectionCreated tr @
              [NewTrackLocalStaticSample MimeTypeVP8 ''video'' ''pion'',
               NewTrackLocalStaticSample MimeTypeOpus ''audio'' ''pion'',
               AddTrack video_track, AddTrack audio_track, PeerConnectionClose])
       | None \<Rightarrow>
           (Inr \<lparr>videoTrack = video_track, audioTrack = audio_track,
                 udpListener = None, stopChan = OpenChan\<rparr>,
            peerConnectionCreated tr @
              [NewTrackLocalStaticSample MimeTypeVP8 ''video'' ''pion'',
               NewTrackLocalStaticSample MimeTypeOpus ''audio'' ''pion'',
               AddTrack video_track, AddTrack audio_track,
               OnICECandidate, OnICEConnectionStateChange]))"
    if "lib_error lib (peerConnectionCreated tr)
          (NewTrackLocalStaticSample MimeTypeVP8 ''video'' ''pion'') = None"
      "lib_error lib (peerConnectionCreated tr @
          [NewTrackLocalStaticSample MimeTypeVP8 ''video'' ''pion''])
          (NewTrackLocalStaticSample MimeTypeOpus ''audio'' ''pion'') = None"
      "lib_error lib (peerConnectionCreated tr @
          [NewTrackLocalStaticSample MimeTypeVP8 ''video'' ''pion'',
           NewTrackLocalStaticSample MimeTypeOpus ''audio'' ''pion''])
          (AddTrack video_track) = None"
    using assms that
    by (simp add: newWebRTCManager_def call_def peerConnectionCreated_def video_track_def
          audio_track_def Let_def split: option.splits)
  have closes: "\<exists>steps. tr' = peerConnectionCreated tr @ steps @ [PeerConnectionClose]
                     \<and> PeerConnectionClose \<notin> set steps"
    if "newWebRTCManager lib tr = (Inl err, tr')"
    using assms that
    by (auto simp add: newWebRTCManager_def call_def Let_def peerConnectionCreated_def
             split: option.splits)
  have stays_open: "PeerConnectionClose \<notin> set (drop (length tr) tr')"
    if "newWebRTCManager lib tr = (Inr m', tr')"
    using assms that
    by (auto simp add: newWebRTCManager_def call_def Let_def split: option.splits)
  from video audio add_video add_audio closes stays_open show ?thesis
    by blast
qed

theorem construction_failure_closes_peer_connection_witness:
  "lib_error (failing_library (AddTrack audio_track) ''closed'') [] RegisterDefaultCodecs = None
   \<and> lib_error (failing_library (AddTrack audio_track) ''closed'') ([] @ [RegisterDefaultCodecs])
       (NewPeerConnection [''stun:stun.l.google.com:19302'']) = None
   \<and> newWebRTCManager
     (failing_library (NewTrackLocalStaticSample MimeTypeVP8 ''video'' ''pion'') ''no codec'') [] =
     (Inl ''failed to create video track: no codec'',
      [RegisterDefaultCodecs, NewPeerConnection [''stun:stun.l.google.com:19302''],
       NewTrackLocalStaticSample MimeTypeVP8 ''video'' ''pion'', PeerConnectionClose])
   \<and> newWebRTCManager
     (failing_library (NewTrackLocalStaticSample MimeTypeOpus ''audio'' ''pion'') ''no codec'') [] =
     (Inl ''failed to create audio track: no codec'',
      [RegisterDefaultCodecs, NewPeerConnection [''stun:stun.l.google.com:19302''],
       NewTrackLocalStaticSample MimeTypeVP8 ''video'' ''pion'',
       NewTrackLocalStaticSample MimeTypeOpus ''audio'' ''pion'', PeerConnectionClose])
   \<and> newWebRTCManager (failing_library (AddTrack video_track) ''closed'') [] =
     (Inl ''failed to add video track: closed'',
      [RegisterDefaultCodecs, NewPeerConnection [''stun:stun.l.google.com:19302''],
       NewTrackLocalStaticSample MimeTypeVP8 ''video'' ''pion'',
       NewTrackLocalStaticSample MimeTypeOpus ''audio'' ''pion'',
       AddTrack video_track, PeerConnectionClose])
   \<and> newWebRTCManager (failing_library (AddTrack audio_track) ''closed'') [] =
     (Inl ''failed to add audio track: closed'',
      [RegisterDefaultCodecs, NewPeerConnection [''stun:stun.l.google.com:19302''],
       NewTrackLocalStaticSample MimeTypeVP8 ''video'' ''pion'',
       NewTrackLocalStaticSample MimeTypeOpus ''audio'' ''pion'',
       AddTrack video_track, AddTrack audio_track, PeerConnectionClose])"
proof -
  have err: "lib_error (failing_library ev msg) t e = (if e = ev then Some msg else None)"
    for ev msg t e
    by (simp add: failing_library_def plain_library_def)
  have created: "peerConnectionCreated [] =
      [RegisterDefaultCodecs, NewPeerConnection [''stun:stun.l.google.com:19302'']]"
    by (simp add: peerConnectionCreated_def)
  have tracks: "audio_track \<noteq> video_track"
    by (simp add: audio_track_def video_track_def)
  note claim = construction_failure_closes_peer_connection
  from claim[of "failing_library (NewTrackLocalStaticSample MimeTypeVP8 ''video'' ''pion'') ''no codec''"
      "[]" "''no codec''"]
  have 1: "newWebRTCManager
     (failing_library (NewTrackLocalStaticSample MimeTypeVP8 ''video'' ''pion'') ''no codec'') [] =
     (Inl ''failed to create video track: no codec'',
      [RegisterDefaultCodecs, NewPeerConnection [''stun:stun.l.google.com:19302''],
       NewTrackLocalStaticSample MimeTypeVP8 ''video'' ''pion'', PeerConnectionClose])"
    by (simp add: err created)
  from claim[of "failing_library (NewTrackLocalStaticSample MimeTypeOpus ''audio'' ''pion'') ''no codec''"
      "[]" "''no codec''"]
  have 2: "newWebRTCManager
     (failing_library (NewTrackLocalStaticSample MimeTypeOpus ''audio'' ''pion'') ''no codec'') [] =
     (Inl ''failed to create audio track: no codec'',
      [RegisterDefaultCodecs, NewPeerConnection [''stun:stun.l.google.com:19302''],
       NewTrackLocalStaticSample MimeTypeVP8 ''video'' ''pion'',
       NewTrackLocalStaticSample MimeTypeOpus ''audio'' ''pion'', PeerConnectionClose])"
    by (simp add: err created)
  from claim[of "failing_library (AddTrack video_track) ''closed''" "[]" "''closed''"]
  have 3: "newWebRTCManager (failing_library (AddTrack video_track) ''closed'') [] =
     (Inl ''failed to add video track: closed'',
      [RegisterDefaultCodecs, NewPeerConnection [''stun:stun.l.google.com:19302''],
       NewTrackLocalStaticSample MimeTypeVP8 ''video'' ''pion'',
       NewTrackLocalStaticSample MimeTypeOpus ''audio'' ''pion'',
       AddTrack video_track, PeerConnectionClose])"
    by (simp add: err created)
  from claim[of "failing_library (AddTrack audio_track) ''closed''" "[]" "''closed''"] tracks
  have 4: "newWebRTCManager (failing_library (AddTrack audio_track) ''closed'') [] =
     (Inl ''failed to add audio track: closed'',
      [RegisterDefaultCodecs, NewPeerConnection [''stun:stun.l.google.com:19302''],
       NewTrackLocalStaticSample MimeTypeVP8 ''video'' ''pion'',
       NewTrackLocalStaticSample MimeTypeOpus ''audio'' ''pion'',
       AddTrack video_track, AddTrack audio_track, PeerConnectionClose])"
    by (simp add: err created)
  have h: "lib_error (failing_library (AddTrack audio_track) ''closed'') [] RegisterDefaultCodecs
      = None"
    "lib_error (failing_library (AddTrack audio_track) ''closed'') ([] @ [RegisterDefaultCodecs])
       (NewPeerConnection [''stun:stun.l.google.com:19302'']) = None"
    by (simp_all add: err)
  from h 1 2 3 4 show ?thesis by blast
qed

end
